theory Spec2Isabelle
  imports Complex_Main "HOL-Library.AList"
begin

section \<open>Messages and sockets\<close>

text \<open>
  A \<open>DeviceMessage\<close> is a tagged map: a required \<open>type\<close> string, the optional
  envelope fields the relay code reads or writes by name (\<open>deviceId\<close>, \<open>timestamp\<close>,
  \<open>requestId\<close>, \<open>message\<close>, \<open>token\<close>), and every other field as an
  association list of JSON values. Instants (\<open>Date.now()\<close>, \<open>Date\<close> objects and
  ISO-8601 strings) are milliseconds since the epoch, as \<open>int\<close>. Each event handler
  reads the clock once; the reading is the parameter \<open>now\<close>.
\<close>

datatype jsval =
  JNull | JBool bool | JNum int | JReal real | JStr string | JObj "(string \<times> jsval) list"

record DeviceMessage =
  msg_type :: string
  msg_deviceId :: "string option"
  msg_timestamp :: "int option"
  msg_requestId :: "string option"
  msg_message :: "string option"
  msg_token :: "string option"
  payload :: "(string \<times> jsval) list"

definition msg :: "string \<Rightarrow> (string \<times> jsval) list \<Rightarrow> DeviceMessage" where
  "msg t fs = \<lparr>msg_type = t, msg_deviceId = None, msg_timestamp = None, msg_requestId = None,
      msg_message = None, msg_token = None, payload = fs\<rparr>"

definition msg_at :: "string \<Rightarrow> int \<Rightarrow> (string \<times> jsval) list \<Rightarrow> DeviceMessage" where
  "msg_at t now fs = (msg t fs)\<lparr>msg_timestamp := Some now\<rparr>"

text \<open>
  The \<open>ws\<close> library is outside the repository. A socket is a handle (\<open>sock\<close>) into a
  store of socket records; the record keeps what the relay code can observe or cause:
  the \<open>readyState\<close>, the frames handed to \<open>send\<close> (oldest first), the number of pings
  sent, the arguments of the \<open>close\<close> call that started the closing handshake, and whether
  \<open>terminate\<close> was called. \<open>close\<close> and \<open>terminate\<close> move an open socket to
  \<open>CLOSING\<close>; the socket's \<open>close\<close> event is a later event of its own, at which
  the state is \<open>CLOSED\<close>.
\<close>

type_synonym sock = nat

datatype readyState = CONNECTING | OPEN | CLOSING | CLOSED

record WebSocket =
  readyState :: readyState
  outbox :: "DeviceMessage list"
  pingsSent :: nat
  closeCalled :: "(nat \<times> string) option"
  terminated :: bool

definition openSocket :: WebSocket where
  "openSocket = \<lparr>readyState = OPEN, outbox = [], pingsSent = 0, closeCalled = None,
      terminated = False\<rparr>"

definition ws_send :: "DeviceMessage \<Rightarrow> WebSocket \<Rightarrow> WebSocket" where
  "ws_send m s = (if readyState s = OPEN then s\<lparr>outbox := outbox s @ [m]\<rparr> else s)"

definition ws_ping :: "WebSocket \<Rightarrow> WebSocket" where
  "ws_ping s = (if readyState s = OPEN then s\<lparr>pingsSent := Suc (pingsSent s)\<rparr> else s)"

definition ws_close :: "nat \<Rightarrow> string \<Rightarrow> WebSocket \<Rightarrow> WebSocket" where
  "ws_close code reason s =
     (if readyState s = OPEN then s\<lparr>readyState := CLOSING, closeCalled := Some (code, reason)\<rparr>
      else s)"

definition ws_terminate :: "WebSocket \<Rightarrow> WebSocket" where
  "ws_terminate s =
     (if readyState s = CLOSED then s else s\<lparr>readyState := CLOSING, terminated := True\<rparr>)"

definition ws_closed :: "WebSocket \<Rightarrow> WebSocket" where
  "ws_closed s = s\<lparr>readyState := CLOSED\<rparr>"

section \<open>Device Relay (device-relay.ts)\<close>

text \<open>
  \<open>devices\<close> is the registry \<open>Map<string, DeviceConnection>\<close>. Its values are
  references: the \<open>connection\<close> object that \<open>handleConnection\<close> creates is also
  captured by the handlers it installs on the socket, and those handlers keep writing to
  it after the registry has let go of it. The objects therefore live in a store
  (\<open>conns\<close>, indexed by the socket each was created for) and the registry holds the
  index, in insertion order. \<open>statusUpdates\<close> logs the \<open>updateDeviceStatus\<close> calls
  and \<open>published\<close> the \<open>notifyHandlers\<close> calls, oldest first.
\<close>

record DeviceConnection =
  ws :: sock
  deviceId :: string
  connectedAt :: int
  lastSeen :: int
  missedPings :: nat

record DeviceRelay =
  sockets :: "sock \<Rightarrow> WebSocket"
  conns :: "sock \<Rightarrow> DeviceConnection option"
  devices :: "(string \<times> sock) list"
  statusUpdates :: "(string \<times> bool) list"
  published :: "(string \<times> DeviceMessage) list"

definition MAX_MISSED_PINGS :: nat where
  "MAX_MISSED_PINGS = 2"

definition newDeviceRelay :: DeviceRelay where
  "newDeviceRelay = \<lparr>sockets = (\<lambda>_. openSocket), conns = (\<lambda>_. None), devices = [],
      statusUpdates = [], published = []\<rparr>"

definition devices_get :: "DeviceRelay \<Rightarrow> string \<Rightarrow> DeviceConnection option" where
  "devices_get R d = (case map_of (devices R) d of None \<Rightarrow> None | Some a \<Rightarrow> conns R a)"

definition on_socket :: "sock \<Rightarrow> (WebSocket \<Rightarrow> WebSocket) \<Rightarrow> DeviceRelay \<Rightarrow> DeviceRelay" where
  "on_socket w f R = R\<lparr>sockets := (sockets R)(w := f (sockets R w))\<rparr>"

definition updateDeviceStatus :: "string \<Rightarrow> bool \<Rightarrow> DeviceRelay \<Rightarrow> DeviceRelay" where
  "updateDeviceStatus d online R = R\<lparr>statusUpdates := statusUpdates R @ [(d, online)]\<rparr>"

definition notifyHandlers :: "string \<Rightarrow> DeviceMessage \<Rightarrow> DeviceRelay \<Rightarrow> DeviceRelay" where
  "notifyHandlers d m R = R\<lparr>published := published R @ [(d, m)]\<rparr>"

definition sendToDevice :: "string \<Rightarrow> DeviceMessage \<Rightarrow> DeviceRelay \<Rightarrow> bool \<times> DeviceRelay" where
  "sendToDevice d m R =
     (case devices_get R d of
        None \<Rightarrow> (False, R)
      | Some connection \<Rightarrow>
          if readyState (sockets R (ws connection)) \<noteq> OPEN then (False, R)
          else (True, on_socket (ws connection) (ws_send m) R))"

definition isDeviceConnected :: "DeviceRelay \<Rightarrow> string \<Rightarrow> bool" where
  "isDeviceConnected R d =
     (case devices_get R d of
        None \<Rightarrow> False
      | Some connection \<Rightarrow> readyState (sockets R (ws connection)) = OPEN)"

definition getConnectedDeviceCount :: "DeviceRelay \<Rightarrow> nat" where
  "getConnectedDeviceCount R = length (devices R)"

definition getDeviceLastSeen :: "DeviceRelay \<Rightarrow> string \<Rightarrow> int option" where
  "getDeviceLastSeen R d =
     (case devices_get R d of None \<Rightarrow> None | Some connection \<Rightarrow> Some (lastSeen connection))"

definition disconnectDevice :: "string \<Rightarrow> DeviceRelay \<Rightarrow> bool \<times> DeviceRelay" where
  "disconnectDevice d R =
     (case devices_get R d of
        None \<Rightarrow> (False, R)
      | Some connection \<Rightarrow>
          (True, on_socket (ws connection) (ws_close 4000 ''Disconnected by admin'') R))"

text \<open>The test \<open>/^BRW-[A-F0-9]{8}$/i\<close> on the device id.\<close>

definition hexDigit :: "char \<Rightarrow> bool" where
  "hexDigit c = (c \<in> set ''0123456789ABCDEFabcdef'')"

definition validDeviceId :: "string \<Rightarrow> bool" where
  "validDeviceId s =
     (length s = 12 \<and> s ! 0 \<in> set ''Bb'' \<and> s ! 1 \<in> set ''Rr'' \<and> s ! 2 \<in> set ''Ww'' \<and>
      s ! 3 = CHR ''-'' \<and> list_all hexDigit (drop 4 s))"

definition handleDeviceMessage :: "int \<Rightarrow> string \<Rightarrow> DeviceMessage \<Rightarrow> DeviceRelay \<Rightarrow> DeviceRelay" where
  "handleDeviceMessage now d message R =
     notifyHandlers d
       (message\<lparr>msg_deviceId := Some d,
          msg_timestamp := Some (case msg_timestamp message of
                                   None \<Rightarrow> now
                                 | Some t \<Rightarrow> if t = 0 then now else t)\<rparr>) R"

definition DeviceRelay_handleConnection ::
  "(string \<Rightarrow> string \<Rightarrow> bool) \<Rightarrow> int \<Rightarrow> sock \<Rightarrow> string option \<Rightarrow> string option \<Rightarrow>
     DeviceRelay \<Rightarrow> DeviceRelay" where
  "DeviceRelay_handleConnection verifyDeviceKey now w idParam keyParam R =
     (case idParam of
        None \<Rightarrow> on_socket w (ws_close 4001 ''Missing device ID or key'') R
      | Some d \<Rightarrow>
     (case keyParam of
        None \<Rightarrow> on_socket w (ws_close 4001 ''Missing device ID or key'') R
      | Some deviceKey \<Rightarrow>
          if d = [] \<or> deviceKey = [] then
            on_socket w (ws_close 4001 ''Missing device ID or key'') R
          else if \<not> validDeviceId d then
            on_socket w (ws_close 4001 ''Invalid device ID format'') R
          else if length deviceKey < 32 \<or> length deviceKey > 64 then
            on_socket w (ws_close 4003 ''Invalid device key format'') R
          else if \<not> verifyDeviceKey d deviceKey then
            on_socket w (ws_close 4003 ''Invalid device credentials'') R
          else
            let R1 = (case devices_get R d of
                        None \<Rightarrow> R
                      | Some existing \<Rightarrow>
                          on_socket (ws existing) (ws_close 4002 ''Replaced by new connection'') R);
                connection = \<lparr>ws = w, deviceId = d, connectedAt = now, lastSeen = now,
                               missedPings = 0\<rparr>;
                R2 = R1\<lparr>conns := (conns R1)(w \<mapsto> connection),
                        devices := AList.update d w (devices R1)\<rparr>;
                R3 = updateDeviceStatus d True R2;
                R4 = snd (sendToDevice d (msg_at ''connected'' now []) R3);
                R5 = snd (sendToDevice d (msg_at ''request_state'' now []) R4)
            in notifyHandlers d (msg ''device_online'' []) R5))"

text \<open>
  The handlers that \<open>handleConnection\<close> installs on an accepted socket. A socket that was
  rejected has none, so its events change nothing (\<open>conns R w = None\<close>).
  A received frame is given by what the decoders make of it: \<open>Binary\<close> when the data
  is a \<open>Buffer\<close> or an \<open>ArrayBuffer\<close>, with the outcomes of \<open>decodeMulti\<close>, of
  \<open>Decoder.decodeMulti\<close> and of \<open>decode\<close> (\<open>None\<close> when the call throws);
  \<open>Text\<close> otherwise, with the outcome of \<open>JSON.parse\<close>. Decoded values are maps.
\<close>

datatype RawData =
  Binary "DeviceMessage list option" "DeviceMessage list option" "DeviceMessage option"
| Text "DeviceMessage option"

definition on_pong :: "int \<Rightarrow> sock \<Rightarrow> DeviceRelay \<Rightarrow> DeviceRelay" where
  "on_pong now w R =
     (case conns R w of
        None \<Rightarrow> R
      | Some connection \<Rightarrow>
          R\<lparr>conns := (conns R)(w \<mapsto> connection\<lparr>missedPings := 0, lastSeen := now\<rparr>)\<rparr>)"

fun handleEach :: "int \<Rightarrow> string \<Rightarrow> DeviceMessage list \<Rightarrow> DeviceRelay \<Rightarrow> DeviceRelay" where
  "handleEach now d [] R = R"
| "handleEach now d (m # ms) R = handleEach now d ms (handleDeviceMessage now d m R)"

definition singleDecode :: "int \<Rightarrow> string \<Rightarrow> DeviceMessage option \<Rightarrow> DeviceRelay \<Rightarrow> DeviceRelay" where
  "singleDecode now d r R = (case r of None \<Rightarrow> R | Some message \<Rightarrow> handleDeviceMessage now d message R)"

definition on_message :: "int \<Rightarrow> sock \<Rightarrow> RawData \<Rightarrow> DeviceRelay \<Rightarrow> DeviceRelay" where
  "on_message now w data R =
     (case conns R w of
        None \<Rightarrow> R
      | Some connection \<Rightarrow>
          let d = deviceId connection;
              R1 = R\<lparr>conns := (conns R)(w \<mapsto> connection\<lparr>lastSeen := now, missedPings := 0\<rparr>)\<rparr>
          in (case data of
                Binary multi decoder single \<Rightarrow>
                  (case multi of
                     Some messages \<Rightarrow>
                       if messages \<noteq> [] then handleEach now d messages R1
                       else singleDecode now d single R1
                   | None \<Rightarrow>
                       (case decoder of
                          Some messages \<Rightarrow>
                            if messages \<noteq> [] then handleEach now d messages R1
                            else singleDecode now d single R1
                        | None \<Rightarrow> singleDecode now d single R1))
              | Text parsed \<Rightarrow> singleDecode now d parsed R1))"

definition on_close :: "int \<Rightarrow> sock \<Rightarrow> DeviceRelay \<Rightarrow> DeviceRelay" where
  "on_close now w R =
     (let R0 = on_socket w ws_closed R
      in case conns R0 w of
           None \<Rightarrow> R0
         | Some connection \<Rightarrow>
             let d = deviceId connection;
                 R1 = R0\<lparr>devices := AList.delete d (devices R0)\<rparr>;
                 R2 = updateDeviceStatus d False R1
             in notifyHandlers d (msg ''device_offline'' []) R2)"

text \<open>The keep-alive sweep, \<open>this.devices.forEach\<close> in registry order.\<close>

definition pingDevice :: "sock \<Rightarrow> DeviceRelay \<Rightarrow> DeviceRelay" where
  "pingDevice a R =
     (case conns R a of
        None \<Rightarrow> R
      | Some connection \<Rightarrow>
          let c' = connection\<lparr>missedPings := Suc (missedPings connection)\<rparr>;
              R1 = R\<lparr>conns := (conns R)(a \<mapsto> c')\<rparr>
          in if missedPings c' > MAX_MISSED_PINGS then on_socket (ws c') ws_terminate R1
             else on_socket (ws c') ws_ping R1)"

definition pingAllDevices :: "DeviceRelay \<Rightarrow> DeviceRelay" where
  "pingAllDevices R = fold pingDevice (map snd (devices R)) R"

text \<open>The events of the Device Relay and its reaction to each.\<close>

datatype relay_event =
  DeviceConnect sock "string option" "string option"
| DevicePong sock
| DeviceFrame sock RawData
| DeviceClosed sock
| DevicePingSweep
| AdminDisconnect string

definition relay_step ::
  "(string \<Rightarrow> string \<Rightarrow> bool) \<Rightarrow> int \<Rightarrow> relay_event \<Rightarrow> DeviceRelay \<Rightarrow> DeviceRelay" where
  "relay_step verifyDeviceKey now e R =
     (case e of
        DeviceConnect w idParam keyParam \<Rightarrow>
          DeviceRelay_handleConnection verifyDeviceKey now w idParam keyParam R
      | DevicePong w \<Rightarrow> on_pong now w R
      | DeviceFrame w data \<Rightarrow> on_message now w data R
      | DeviceClosed w \<Rightarrow> on_close now w R
      | DevicePingSweep \<Rightarrow> pingAllDevices R
      | AdminDisconnect d \<Rightarrow> snd (disconnectDevice d R))"

section \<open>Client Proxy (client-proxy.ts)\<close>

definition MAX_MISSED_PONGS :: nat where
  "MAX_MISSED_PONGS = 2"

definition TOKEN_EXPIRY_WARNING_MS :: int where
  "TOKEN_EXPIRY_WARNING_MS = 5 * 60 * 1000"

definition MESSAGE_QUEUE_TTL_MS :: int where
  "MESSAGE_QUEUE_TTL_MS = 10000"

definition MAX_QUEUED_MESSAGES :: nat where
  "MAX_QUEUED_MESSAGES = 50"

definition MAX_MESSAGE_RETRIES :: nat where
  "MAX_MESSAGE_RETRIES = 3"

definition CACHE_STALE_THRESHOLD_MS :: int where
  "CACHE_STALE_THRESHOLD_MS = 10000"

definition CACHED_MESSAGE_TYPES :: "string list" where
  "CACHED_MESSAGE_TYPES = [''status'', ''status_delta'', ''device_info'', ''esp_status'', ''pico_status'']"

text \<open>
  \<open>avgPingRTT\<close> is a double in the source and a real here; no statement below depends
  on its value. A timeout handle is the instant it fires at, the expiry instant its
  callback captured, and whether it is still armed: \<open>clearTimeout\<close> and the firing
  disarm it, the field that holds the handle keeps it. An ISO-8601 string is represented
  by the instant it denotes.
\<close>

record ConnectionMetrics =
  messagesSent :: nat
  messagesReceived :: nat
  lastPingRTT :: "int option"
  avgPingRTT :: real
  pingCount :: nat
  reconnectCount :: nat

record Timeout =
  fireAt :: int
  expiresAt :: int
  armed :: bool

record ClientConnection =
  c_ws :: sock
  sessionId :: string
  userId :: string
  c_deviceId :: string
  c_connectedAt :: int
  lastActivity :: int
  missedPongs :: nat
  accessTokenExpiresAt :: int
  tokenExpiryTimer :: "Timeout option"
  metrics :: ConnectionMetrics
  pingStartTime :: "int option"

record PendingMessage =
  pm_message :: DeviceMessage
  pm_timestamp :: int
  retries :: nat
  clientSessionId :: string

record DeviceStateCache =
  status :: "DeviceMessage option"
  device_info :: "DeviceMessage option"
  esp_status :: "DeviceMessage option"
  pico_status :: "DeviceMessage option"
  lastUpdated :: int

text \<open>
  As in the relay, the \<open>ClientConnection\<close> objects are shared between the session
  table and the handlers of their sockets, so they live in a store (\<open>clientConns\<close>)
  indexed by the socket; \<open>clients\<close> maps a session id to that index and
  \<open>deviceClients\<close> a device id to its set of session ids, both in insertion order.
\<close>

record ClientProxy =
  deviceRelay :: DeviceRelay
  clientSockets :: "sock \<Rightarrow> WebSocket"
  clientConns :: "sock \<Rightarrow> ClientConnection option"
  clients :: "(string \<times> sock) list"
  deviceClients :: "(string \<times> string list) list"
  pendingMessages :: "(string \<times> PendingMessage list) list"
  deviceStateCache :: "(string \<times> DeviceStateCache) list"
  totalConnections :: nat
  totalMessages :: nat

record SessionResult =
  user_id :: string
  user_email :: string
  access_expires_at :: int

definition newClientProxy :: "DeviceRelay \<Rightarrow> ClientProxy" where
  "newClientProxy R = \<lparr>deviceRelay = R, clientSockets = (\<lambda>_. openSocket),
      clientConns = (\<lambda>_. None), clients = [], deviceClients = [], pendingMessages = [],
      deviceStateCache = [], totalConnections = 0, totalMessages = 0\<rparr>"

definition clients_get :: "ClientProxy \<Rightarrow> string \<Rightarrow> ClientConnection option" where
  "clients_get P sid = (case map_of (clients P) sid of None \<Rightarrow> None | Some a \<Rightarrow> clientConns P a)"

definition on_clientSocket :: "sock \<Rightarrow> (WebSocket \<Rightarrow> WebSocket) \<Rightarrow> ClientProxy \<Rightarrow> ClientProxy" where
  "on_clientSocket w f P = P\<lparr>clientSockets := (clientSockets P)(w := f (clientSockets P w))\<rparr>"

definition modify_client ::
  "sock \<Rightarrow> (ClientConnection \<Rightarrow> ClientConnection) \<Rightarrow> ClientProxy \<Rightarrow> ClientProxy" where
  "modify_client a f P = P\<lparr>clientConns := (clientConns P)(a := map_option f (clientConns P a))\<rparr>"

definition relaySend :: "string \<Rightarrow> DeviceMessage \<Rightarrow> ClientProxy \<Rightarrow> bool \<times> ClientProxy" where
  "relaySend d m P =
     (let r = sendToDevice d m (deviceRelay P) in (fst r, P\<lparr>deviceRelay := snd r\<rparr>))"

definition sendToClient :: "ClientConnection \<Rightarrow> DeviceMessage \<Rightarrow> ClientProxy \<Rightarrow> ClientProxy" where
  "sendToClient client m P =
     (if readyState (clientSockets P (c_ws client)) = OPEN
      then on_clientSocket (c_ws client) (ws_send m) P else P)"

definition queueLength :: "ClientProxy \<Rightarrow> string \<Rightarrow> nat" where
  "queueLength P d = (case map_of (pendingMessages P) d of None \<Rightarrow> 0 | Some q \<Rightarrow> length q)"

subsection \<open>Client management\<close>

definition set_add :: "'a \<Rightarrow> 'a list \<Rightarrow> 'a list" where
  "set_add x xs = (if x \<in> set xs then xs else xs @ [x])"

definition registerClient :: "ClientConnection \<Rightarrow> ClientProxy \<Rightarrow> ClientProxy" where
  "registerClient client P =
     P\<lparr>clientConns := (clientConns P)(c_ws client \<mapsto> client),
       clients := AList.update (sessionId client) (c_ws client) (clients P),
       deviceClients :=
         AList.update (c_deviceId client)
           (set_add (sessionId client)
              (case map_of (deviceClients P) (c_deviceId client) of None \<Rightarrow> [] | Some s \<Rightarrow> s))
           (deviceClients P)\<rparr>"

definition unregisterClient :: "ClientConnection \<Rightarrow> ClientProxy \<Rightarrow> ClientProxy" where
  "unregisterClient client P =
     (let P1 = P\<lparr>clients := AList.delete (sessionId client) (clients P)\<rparr>
      in case map_of (deviceClients P1) (c_deviceId client) of
           None \<Rightarrow> P1
         | Some deviceSessions \<Rightarrow>
             let s = removeAll (sessionId client) deviceSessions
             in if s = [] then P1\<lparr>deviceClients := AList.delete (c_deviceId client) (deviceClients P1)\<rparr>
                else P1\<lparr>deviceClients := AList.update (c_deviceId client) s (deviceClients P1)\<rparr>)"

definition clearTimeout :: "Timeout option \<Rightarrow> Timeout option" where
  "clearTimeout t = map_option (\<lambda>h. h\<lparr>armed := False\<rparr>) t"

definition cleanupClient :: "sock \<Rightarrow> ClientProxy \<Rightarrow> ClientProxy" where
  "cleanupClient a P =
     (case clientConns P a of
        None \<Rightarrow> P
      | Some client \<Rightarrow>
          unregisterClient client
            (modify_client a (\<lambda>c. c\<lparr>tokenExpiryTimer := clearTimeout (tokenExpiryTimer c)\<rparr>) P))"

definition setupTokenExpiryWarning :: "int \<Rightarrow> ClientConnection \<Rightarrow> ClientConnection" where
  "setupTokenExpiryWarning now connection =
     (let expires = accessTokenExpiresAt connection;
          warningTime = expires - TOKEN_EXPIRY_WARNING_MS
      in if warningTime > now
         then connection\<lparr>tokenExpiryTimer :=
                Some \<lparr>fireAt = warningTime, expiresAt = expires, armed = True\<rparr>\<rparr>
         else connection)"

subsection \<open>Message queue for offline devices\<close>

definition expired :: "int \<Rightarrow> PendingMessage \<Rightarrow> bool" where
  "expired now pending = (now - pm_timestamp pending > MESSAGE_QUEUE_TTL_MS)"

definition queueMessageForDevice ::
  "int \<Rightarrow> string \<Rightarrow> DeviceMessage \<Rightarrow> string \<Rightarrow> ClientProxy \<Rightarrow> ClientProxy" where
  "queueMessageForDevice now d message sid P =
     (let queue = (case map_of (pendingMessages P) d of None \<Rightarrow> [] | Some q \<Rightarrow> q);
          queue1 = (if length queue \<ge> MAX_QUEUED_MESSAGES then tl queue else queue);
          queue2 = queue1 @ [\<lparr>pm_message = message, pm_timestamp = now, retries = 0,
                               clientSessionId = sid\<rparr>]
      in P\<lparr>pendingMessages := AList.update d queue2 (pendingMessages P)\<rparr>)"

text \<open>
  One turn of the flush loop. On a failed send the source increments \<open>retries\<close> of
  the entry (below \<open>MAX_MESSAGE_RETRIES\<close>); the entry is dropped with the whole queue
  right after the loop, so the increment leaves no trace in the state.
\<close>

definition flushOne :: "string \<Rightarrow> PendingMessage \<Rightarrow> ClientProxy \<Rightarrow> ClientProxy" where
  "flushOne d pending P =
     (let r = relaySend d (pm_message pending) P
      in if fst r then
           (case clients_get (snd r) (clientSessionId pending) of
              None \<Rightarrow> snd r
            | Some client \<Rightarrow>
                sendToClient client
                  (msg ''queued_message_sent''
                     [(''originalTimestamp'', JNum (pm_timestamp pending)),
                      (''messageType'', JStr (msg_type (pm_message pending)))]) (snd r))
         else snd r)"

fun flushEach :: "string \<Rightarrow> PendingMessage list \<Rightarrow> ClientProxy \<Rightarrow> ClientProxy" where
  "flushEach d [] P = P"
| "flushEach d (pending # rest) P = flushEach d rest (flushOne d pending P)"

definition flushPendingMessages :: "int \<Rightarrow> string \<Rightarrow> ClientProxy \<Rightarrow> ClientProxy" where
  "flushPendingMessages now d P =
     (case map_of (pendingMessages P) d of
        None \<Rightarrow> P
      | Some queue \<Rightarrow>
          if queue = [] then P
          else
            let validMessages = filter (\<lambda>pending. \<not> expired now pending) queue;
                P1 = flushEach d validMessages P
            in P1\<lparr>pendingMessages := AList.delete d (pendingMessages P1)\<rparr>)"

definition cleanupExpiredQueuedMessages :: "int \<Rightarrow> ClientProxy \<Rightarrow> ClientProxy" where
  "cleanupExpiredQueuedMessages now P =
     P\<lparr>pendingMessages :=
         filter (\<lambda>e. snd e \<noteq> [])
           (map (\<lambda>e. (fst e, filter (\<lambda>pending. \<not> expired now pending) (snd e)))
              (pendingMessages P))\<rparr>"

subsection \<open>State caching\<close>

definition updateStateCache :: "int \<Rightarrow> string \<Rightarrow> DeviceMessage \<Rightarrow> ClientProxy \<Rightarrow> ClientProxy" where
  "updateStateCache now d message P =
     (let cache = (case map_of (deviceStateCache P) d of
                     None \<Rightarrow> \<lparr>status = None, device_info = None, esp_status = None,
                               pico_status = None, lastUpdated = now\<rparr>
                   | Some c \<Rightarrow> c);
          cache1 =
            (if msg_type message = ''status'' then
               cache\<lparr>status := Some message, lastUpdated := now\<rparr>
             else if msg_type message = ''status_delta'' then
               cache\<lparr>lastUpdated := now\<rparr>
             else if msg_type message = ''device_info'' then
               cache\<lparr>device_info := Some message, lastUpdated := now\<rparr>
             else if msg_type message = ''esp_status'' then
               cache\<lparr>esp_status := Some message, lastUpdated := now\<rparr>
             else if msg_type message = ''pico_status'' then
               cache\<lparr>pico_status := Some message, lastUpdated := now\<rparr>
             else cache)
      in P\<lparr>deviceStateCache := AList.update d cache1 (deviceStateCache P)\<rparr>)"

definition clearStateCache :: "string \<Rightarrow> ClientProxy \<Rightarrow> ClientProxy" where
  "clearStateCache d P = P\<lparr>deviceStateCache := AList.delete d (deviceStateCache P)\<rparr>"

subsection \<open>Fan-out and the subscriptions of the constructor\<close>

definition broadcastOne :: "DeviceMessage \<Rightarrow> string \<Rightarrow> ClientProxy \<Rightarrow> ClientProxy" where
  "broadcastOne m sid P =
     (case clients_get P sid of None \<Rightarrow> P | Some client \<Rightarrow> sendToClient client m P)"

definition broadcastToDeviceClients :: "string \<Rightarrow> DeviceMessage \<Rightarrow> ClientProxy \<Rightarrow> ClientProxy" where
  "broadcastToDeviceClients d message P =
     (case map_of (deviceClients P) d of
        None \<Rightarrow> P
      | Some sessions \<Rightarrow> fold (broadcastOne message) sessions P)"

text \<open>
  The three handlers that the constructor subscribes with \<open>onDeviceMessage\<close>, run in
  subscription order on one publication.
\<close>

definition onDeviceMessage :: "int \<Rightarrow> string \<Rightarrow> DeviceMessage \<Rightarrow> ClientProxy \<Rightarrow> ClientProxy" where
  "onDeviceMessage now d message P =
     (let P1 = (if msg_type message \<in> set CACHED_MESSAGE_TYPES
                then updateStateCache now d message P else P);
          P2 = broadcastToDeviceClients d message P1;
          P3 = (if msg_type message = ''device_online'' then flushPendingMessages now d P2 else P2)
      in if msg_type message = ''device_offline'' then clearStateCache d P3 else P3)"

subsection \<open>Message handling\<close>

fun decimal :: "nat \<Rightarrow> string" where
  "decimal n =
     (if n < 10 then [''0123456789'' ! n]
      else decimal (n div 10) @ [''0123456789'' ! (n mod 10)])"

declare decimal.simps [simp del]

definition authRefreshed :: "bool \<Rightarrow> (string \<times> jsval) list \<Rightarrow> DeviceMessage" where
  "authRefreshed ok fs = msg ''auth_refreshed'' ((''success'', JBool ok) # fs)"

definition handleAuthRefresh ::
  "(string \<Rightarrow> SessionResult option) \<Rightarrow> int \<Rightarrow> sock \<Rightarrow> DeviceMessage \<Rightarrow> ClientProxy \<Rightarrow> ClientProxy" where
  "handleAuthRefresh verifyAccessToken now a message P =
     (case clientConns P a of
        None \<Rightarrow> P
      | Some client \<Rightarrow>
     (case msg_token message of
        None \<Rightarrow> sendToClient client (authRefreshed False [(''error'', JStr ''Missing token'')]) P
      | Some newToken \<Rightarrow>
          if newToken = [] then
            sendToClient client (authRefreshed False [(''error'', JStr ''Missing token'')]) P
          else
            (case verifyAccessToken newToken of
               None \<Rightarrow>
                 sendToClient client
                   (authRefreshed False [(''error'', JStr ''Invalid or expired token'')]) P
             | Some sessionResult \<Rightarrow>
                 if user_id sessionResult \<noteq> userId client then
                   sendToClient client
                     (authRefreshed False [(''error'', JStr ''Token user mismatch'')]) P
                 else
                   let P1 = modify_client a
                              (\<lambda>c. c\<lparr>accessTokenExpiresAt := access_expires_at sessionResult\<rparr>) P;
                       P2 = modify_client a
                              (\<lambda>c. c\<lparr>tokenExpiryTimer := clearTimeout (tokenExpiryTimer c)\<rparr>) P1;
                       P3 = modify_client a (setupTokenExpiryWarning now) P2
                   in sendToClient client
                        (authRefreshed True
                           [(''tokenExpiresAt'', JNum (access_expires_at sessionResult))]) P3)))"

definition metricsJson :: "ConnectionMetrics \<Rightarrow> jsval" where
  "metricsJson m =
     JObj [(''messagesSent'', JNum (int (messagesSent m))),
           (''messagesReceived'', JNum (int (messagesReceived m))),
           (''lastPingRTT'', (case lastPingRTT m of None \<Rightarrow> JNull | Some r \<Rightarrow> JNum r)),
           (''avgPingRTT'', JReal (avgPingRTT m)),
           (''pingCount'', JNum (int (pingCount m))),
           (''reconnectCount'', JNum (int (reconnectCount m)))]"

definition isoOrNull :: "int option \<Rightarrow> jsval" where
  "isoOrNull t = (case t of None \<Rightarrow> JNull | Some i \<Rightarrow> JNum i)"

definition deviceStatusOffline :: "string \<Rightarrow> int option \<Rightarrow> nat \<Rightarrow> DeviceMessage" where
  "deviceStatusOffline d deviceLastSeen queuedCount =
     (msg ''device_status''
        [(''online'', JBool False),
         (''lastSeen'', isoOrNull deviceLastSeen),
         (''messageQueued'', JBool True),
         (''queuedMessages'', JNum (int queuedCount)),
         (''queueTTL'', JNum (MESSAGE_QUEUE_TTL_MS div 1000))])
       \<lparr>msg_deviceId := Some d,
        msg_message := Some (''Device offline. Message queued ('' @ decimal queuedCount @
          '' pending, '' @ decimal (nat (MESSAGE_QUEUE_TTL_MS div 1000)) @ ''s TTL).'')\<rparr>"

definition handleClientMessage ::
  "(string \<Rightarrow> SessionResult option) \<Rightarrow> int \<Rightarrow> sock \<Rightarrow> DeviceMessage \<Rightarrow> ClientProxy \<Rightarrow> ClientProxy" where
  "handleClientMessage verifyAccessToken now a message P =
     (case clientConns P a of
        None \<Rightarrow> P
      | Some client \<Rightarrow>
          if msg_type message = ''refresh_auth'' then
            handleAuthRefresh verifyAccessToken now a message P
          else if msg_type message = ''ping'' then
            sendToClient client
              (msg_at ''pong'' now [(''clientTimestamp'', isoOrNull (msg_timestamp message))]) P
          else if msg_type message = ''get_metrics'' then
            sendToClient client
              (msg ''metrics''
                 [(''connection'', metricsJson (metrics client)),
                  (''deviceOnline'', JBool (isDeviceConnected (deviceRelay P) (c_deviceId client))),
                  (''queuedMessages'', JNum (int (queueLength P (c_deviceId client))))]) P
          else
            let message1 = message\<lparr>msg_timestamp := Some now\<rparr>;
                P1 = modify_client a
                       (\<lambda>c. c\<lparr>metrics := (metrics c)\<lparr>messagesSent := Suc (messagesSent (metrics c))\<rparr>\<rparr>) P;
                r = relaySend (c_deviceId client) message1 P1
            in if fst r then snd r
               else
                 let P2 = queueMessageForDevice now (c_deviceId client) message1 (sessionId client) (snd r);
                     deviceLastSeen = getDeviceLastSeen (deviceRelay P2) (c_deviceId client);
                     queuedCount = queueLength P2 (c_deviceId client)
                 in sendToClient client
                      (deviceStatusOffline (c_deviceId client) deviceLastSeen queuedCount) P2)"

subsection \<open>Connection handling\<close>

text \<open>
  The last part of \<open>handleConnection\<close>: sending the cached state to the client that has
  just been registered.
\<close>

definition sendCached :: "ClientConnection \<Rightarrow> DeviceMessage option \<Rightarrow> ClientProxy \<Rightarrow> ClientProxy" where
  "sendCached connection slot P = (case slot of None \<Rightarrow> P | Some m \<Rightarrow> sendToClient connection m P)"

definition hydrate :: "int \<Rightarrow> ClientConnection \<Rightarrow> bool \<Rightarrow> ClientProxy \<Rightarrow> ClientProxy" where
  "hydrate now connection deviceOnline P =
     (let d = c_deviceId connection
      in case map_of (deviceStateCache P) d of
           Some cachedState \<Rightarrow>
             if deviceOnline then
               let cacheAge = now - lastUpdated cachedState;
                   isCacheStale = cacheAge > CACHE_STALE_THRESHOLD_MS;
                   P1 = sendCached connection (status cachedState) P;
                   P2 = sendCached connection (device_info cachedState) P1;
                   P3 = sendCached connection (esp_status cachedState) P2;
                   P4 = sendCached connection (pico_status cachedState) P3
               in if isCacheStale then snd (relaySend d (msg_at ''request_state'' now []) P4)
                  else P4
             else P
         | None \<Rightarrow>
             if deviceOnline then snd (relaySend d (msg_at ''request_state'' now []) P)
             else P)"

definition connectedFrame ::
  "int \<Rightarrow> string \<Rightarrow> string \<Rightarrow> bool \<Rightarrow> int option \<Rightarrow> int \<Rightarrow> DeviceMessage" where
  "connectedFrame now sid d deviceOnline deviceLastSeen tokenExpiresAt =
     (msg_at ''connected'' now
        [(''sessionId'', JStr sid),
         (''deviceOnline'', JBool deviceOnline),
         (''deviceLastSeen'', isoOrNull deviceLastSeen),
         (''tokenExpiresAt'', JNum tokenExpiresAt),
         (''serverTime'', JNum now)])\<lparr>msg_deviceId := Some d\<rparr>"

text \<open>
  \<open>uuid\<close> is the value of \<open>uuidv4()\<close> for this connection;
  \<open>newConnection\<close> is the \<open>ClientConnection\<close> literal of \<open>handleConnection\<close>.
\<close>

definition newConnection :: "int \<Rightarrow> sock \<Rightarrow> string \<Rightarrow> SessionResult \<Rightarrow> string \<Rightarrow> ClientConnection" where
  "newConnection now w uuid sessionResult d =
     \<lparr>c_ws = w, sessionId = uuid, userId = user_id sessionResult,
      c_deviceId = d, c_connectedAt = now, lastActivity = now,
      missedPongs = 0,
      accessTokenExpiresAt = access_expires_at sessionResult,
      tokenExpiryTimer = None,
      metrics = \<lparr>messagesSent = 0, messagesReceived = 0, lastPingRTT = None,
                  avgPingRTT = 0, pingCount = 0, reconnectCount = 0\<rparr>,
      pingStartTime = None\<rparr>"

definition ClientProxy_handleConnection ::
  "(string \<Rightarrow> SessionResult option) \<Rightarrow> (string \<Rightarrow> string \<Rightarrow> bool) \<Rightarrow> int \<Rightarrow> sock \<Rightarrow>
     string option \<Rightarrow> string option \<Rightarrow> string \<Rightarrow> ClientProxy \<Rightarrow> ClientProxy" where
  "ClientProxy_handleConnection verifyAccessToken userOwnsDevice now w tokenParam deviceParam uuid P =
     (case tokenParam of
        None \<Rightarrow> on_clientSocket w (ws_close 4001 ''Missing token or device ID'') P
      | Some token \<Rightarrow>
     (case deviceParam of
        None \<Rightarrow> on_clientSocket w (ws_close 4001 ''Missing token or device ID'') P
      | Some d \<Rightarrow>
          if token = [] \<or> d = [] then
            on_clientSocket w (ws_close 4001 ''Missing token or device ID'') P
          else
            (case verifyAccessToken token of
               None \<Rightarrow> on_clientSocket w (ws_close 4002 ''Invalid or expired token'') P
             | Some sessionResult \<Rightarrow>
                 if \<not> userOwnsDevice (user_id sessionResult) d then
                   on_clientSocket w (ws_close 4003 ''Access denied to device'') P
                 else
                   let connection = newConnection now w uuid sessionResult d;
                       P1 = registerClient connection P;
                       P2 = P1\<lparr>totalConnections := Suc (totalConnections P1)\<rparr>;
                       P3 = modify_client w (setupTokenExpiryWarning now) P2;
                       deviceOnline = isDeviceConnected (deviceRelay P3) d;
                       deviceLastSeen = getDeviceLastSeen (deviceRelay P3) d;
                       P4 = sendToClient connection
                              (connectedFrame now uuid d deviceOnline deviceLastSeen
                                 (access_expires_at sessionResult)) P3
                   in hydrate now connection deviceOnline P4)))"

text \<open>The handlers installed on an accepted client socket.\<close>

definition pongUpdate :: "int \<Rightarrow> ClientConnection \<Rightarrow> ClientConnection" where
  "pongUpdate now connection =
     (let c1 = connection\<lparr>missedPongs := 0, lastActivity := now\<rparr>
      in case pingStartTime c1 of
           None \<Rightarrow> c1
         | Some start \<Rightarrow>
             let rtt = now - start;
                 m = metrics c1;
                 n = Suc (pingCount m);
                 m1 = m\<lparr>lastPingRTT := Some rtt, pingCount := n,
                        avgPingRTT := (avgPingRTT m * real (n - 1) + real_of_int rtt) / real n\<rparr>
             in c1\<lparr>metrics := m1, pingStartTime := None\<rparr>)"

definition client_on_pong :: "int \<Rightarrow> sock \<Rightarrow> ClientProxy \<Rightarrow> ClientProxy" where
  "client_on_pong now w P = modify_client w (pongUpdate now) P"

definition client_on_message ::
  "(string \<Rightarrow> SessionResult option) \<Rightarrow> int \<Rightarrow> sock \<Rightarrow> DeviceMessage option \<Rightarrow>
     ClientProxy \<Rightarrow> ClientProxy" where
  "client_on_message verifyAccessToken now w parsed P =
     (case clientConns P w of
        None \<Rightarrow> P
      | Some connection \<Rightarrow>
          let P1 = modify_client w
                     (\<lambda>c. c\<lparr>lastActivity := now,
                            metrics := (metrics c)\<lparr>messagesReceived := Suc (messagesReceived (metrics c))\<rparr>\<rparr>) P;
              P2 = P1\<lparr>totalMessages := Suc (totalMessages P1)\<rparr>
          in case parsed of
               None \<Rightarrow> P2
             | Some message \<Rightarrow> handleClientMessage verifyAccessToken now w message P2)"

definition client_on_close :: "sock \<Rightarrow> ClientProxy \<Rightarrow> ClientProxy" where
  "client_on_close w P = cleanupClient w (on_clientSocket w ws_closed P)"

definition client_on_error :: "sock \<Rightarrow> ClientProxy \<Rightarrow> ClientProxy" where
  "client_on_error w P = cleanupClient w P"

definition tokenTimerFired :: "int \<Rightarrow> sock \<Rightarrow> ClientProxy \<Rightarrow> ClientProxy" where
  "tokenTimerFired now w P =
     (case clientConns P w of
        None \<Rightarrow> P
      | Some connection \<Rightarrow>
          (case tokenExpiryTimer connection of
             None \<Rightarrow> P
           | Some t \<Rightarrow>
               if \<not> armed t then P
               else
                 let P1 = modify_client w
                            (\<lambda>c. c\<lparr>tokenExpiryTimer := clearTimeout (tokenExpiryTimer c)\<rparr>) P
                 in sendToClient connection
                      (msg ''token_expiring''
                         [(''expiresAt'', JNum (accessTokenExpiresAt connection)),
                          (''expiresIn'', JNum ((expiresAt t - now) div 1000)),
                          (''refreshRequired'', JBool True)]) P1))"

subsection \<open>Keep-alive\<close>

definition pingClient :: "int \<Rightarrow> sock \<Rightarrow> ClientProxy \<Rightarrow> ClientProxy" where
  "pingClient now a P =
     (case clientConns P a of
        None \<Rightarrow> P
      | Some connection \<Rightarrow>
          let P1 = modify_client a (\<lambda>c. c\<lparr>missedPongs := Suc (missedPongs c)\<rparr>) P
          in if Suc (missedPongs connection) > MAX_MISSED_PONGS then
               on_clientSocket (c_ws connection) ws_terminate P1
             else
               let P2 = modify_client a (\<lambda>c. c\<lparr>pingStartTime := Some now\<rparr>) P1
               in if readyState (clientSockets P2 (c_ws connection)) = OPEN
                  then on_clientSocket (c_ws connection) ws_ping P2 else P2)"

definition pingAllClients :: "int \<Rightarrow> ClientProxy \<Rightarrow> ClientProxy" where
  "pingAllClients now P = fold (pingClient now) (map snd (clients P)) P"

section \<open>The relay plane as a transition system\<close>

text \<open>
  One event of the event loop runs to completion. A device event runs the Device Relay's
  handler; every publication it makes is handed to the Client Proxy's subscriptions in
  publication order. The relay's handlers publish as their last statement (or, for a frame
  of several messages, after their last write to the relay's own state), so running the
  subscriptions after the handler gives the state the interleaved run gives.
  The collaborators (\<open>verifyDeviceKey\<close>, \<open>verifyAccessToken\<close>, \<open>userOwnsDevice\<close>) are
  outside the repository and are parameters.
\<close>

record services =
  verifyDeviceKey :: "string \<Rightarrow> string \<Rightarrow> bool"
  verifyAccessToken :: "string \<Rightarrow> SessionResult option"
  userOwnsDevice :: "string \<Rightarrow> string \<Rightarrow> bool"

datatype event =
  Device relay_event
| ClientConnect sock "string option" "string option" string
| ClientPong sock
| ClientFrame sock "DeviceMessage option"
| ClientClosed sock
| ClientError sock
| ClientPingSweep
| QueueCleanupSweep
| TokenTimerFired sock

definition dispatch :: "int \<Rightarrow> (string \<times> DeviceMessage) list \<Rightarrow> ClientProxy \<Rightarrow> ClientProxy" where
  "dispatch now pubs P = fold (\<lambda>p. onDeviceMessage now (fst p) (snd p)) pubs P"

definition deviceEvent :: "services \<Rightarrow> int \<Rightarrow> relay_event \<Rightarrow> ClientProxy \<Rightarrow> ClientProxy" where
  "deviceEvent svc now e P =
     (let R = deviceRelay P;
          R' = relay_step (verifyDeviceKey svc) now e R
      in dispatch now (drop (length (published R)) (published R')) (P\<lparr>deviceRelay := R'\<rparr>))"

definition step :: "services \<Rightarrow> int \<Rightarrow> event \<Rightarrow> ClientProxy \<Rightarrow> ClientProxy" where
  "step svc now e P =
     (case e of
        Device re \<Rightarrow> deviceEvent svc now re P
      | ClientConnect w tokenParam deviceParam uuid \<Rightarrow>
          ClientProxy_handleConnection (verifyAccessToken svc) (userOwnsDevice svc) now w
            tokenParam deviceParam uuid P
      | ClientPong w \<Rightarrow> client_on_pong now w P
      | ClientFrame w parsed \<Rightarrow> client_on_message (verifyAccessToken svc) now w parsed P
      | ClientClosed w \<Rightarrow> client_on_close w P
      | ClientError w \<Rightarrow> client_on_error w P
      | ClientPingSweep \<Rightarrow> pingAllClients now P
      | QueueCleanupSweep \<Rightarrow> cleanupExpiredQueuedMessages now P
      | TokenTimerFired w \<Rightarrow> tokenTimerFired now w P)"

inductive reachable :: "ClientProxy \<Rightarrow> bool" where
  start: "reachable (newClientProxy newDeviceRelay)"
| next_event: "reachable P \<Longrightarrow> reachable (step svc now e P)"

section \<open>Request/response helper (routes/logs.ts)\<close>

text \<open>
  \<open>sendDeviceRequest\<close> returns a promise and leaves behind a handler subscribed to the
  relay's publications and a timeout. The record keeps what the closure captured
  (\<open>deviceId\<close>, \<open>requestId\<close>, \<open>requestType\<close>), whether the handler is still in the
  relay's handler set, the timeout (due instant, still armed) and the promise. A promise
  settles once: \<open>resolve\<close> and \<open>reject\<close> on a settled promise change nothing.
  \<open>requestId\<close> is the string built from \<open>Date.now()\<close> and \<open>Math.random()\<close>.
\<close>

datatype promise = Pending | Resolved DeviceMessage | Rejected string

record DeviceRequest =
  rq_deviceId :: string
  rq_requestId :: string
  rq_requestType :: string
  subscribed :: bool
  timeoutAt :: int
  timeoutArmed :: bool
  promise :: promise

definition DEFAULT_TIMEOUT :: int where
  "DEFAULT_TIMEOUT = 10000"

definition resolve :: "DeviceMessage \<Rightarrow> DeviceRequest \<Rightarrow> DeviceRequest" where
  "resolve m rq = (if promise rq = Pending then rq\<lparr>promise := Resolved m\<rparr> else rq)"

definition reject :: "string \<Rightarrow> DeviceRequest \<Rightarrow> DeviceRequest" where
  "reject err rq = (if promise rq = Pending then rq\<lparr>promise := Rejected err\<rparr> else rq)"

definition unsubscribe :: "DeviceRequest \<Rightarrow> DeviceRequest" where
  "unsubscribe rq = rq\<lparr>subscribed := False\<rparr>"

definition clearRequestTimeout :: "DeviceRequest \<Rightarrow> DeviceRequest" where
  "clearRequestTimeout rq = rq\<lparr>timeoutArmed := False\<rparr>"

definition sendDeviceRequest ::
  "string \<Rightarrow> DeviceMessage \<Rightarrow> int \<Rightarrow> string \<Rightarrow> int \<Rightarrow> DeviceRelay \<Rightarrow> DeviceRequest \<times> DeviceRelay" where
  "sendDeviceRequest d message timeout requestId now R =
     (let rq = \<lparr>rq_deviceId = d, rq_requestId = requestId, rq_requestType = msg_type message,
                 subscribed = True, timeoutAt = now + timeout, timeoutArmed = True,
                 promise = Pending\<rparr>;
          messageWithId = message\<lparr>msg_requestId := Some requestId\<rparr>;
          r = sendToDevice d messageWithId R
      in if \<not> fst r
         then (reject ''Device not connected'' (unsubscribe (clearRequestTimeout rq)), snd r)
         else (rq, snd r))"

definition errorText :: "DeviceMessage \<Rightarrow> string" where
  "errorText response =
     (case msg_message response of
        None \<Rightarrow> ''Device error''
      | Some t \<Rightarrow> if t = [] then ''Device error'' else t)"

definition matches :: "DeviceRequest \<Rightarrow> string \<Rightarrow> DeviceMessage \<Rightarrow> bool" where
  "matches rq receivedDeviceId response =
     (receivedDeviceId = rq_deviceId rq \<and> msg_requestId response = Some (rq_requestId rq) \<and>
      (msg_type response = rq_requestType rq @ ''_response'' \<or> msg_type response = ''error''))"

definition handler :: "string \<Rightarrow> DeviceMessage \<Rightarrow> DeviceRequest \<Rightarrow> DeviceRequest" where
  "handler receivedDeviceId response rq =
     (if matches rq receivedDeviceId response then
        let rq1 = unsubscribe (clearRequestTimeout rq)
        in if msg_type response = ''error'' then reject (errorText response) rq1
           else resolve response rq1
      else rq)"

text \<open>
  The two events that reach a request after it was sent: a publication of the relay, which
  calls the handler while it is subscribed, and the clock reaching the timeout, which runs
  the timeout's callback while it is armed.
\<close>

datatype request_event = Publication string DeviceMessage | Clock int

definition timeoutFired :: "DeviceRequest \<Rightarrow> DeviceRequest" where
  "timeoutFired rq = reject ''Request timeout'' (unsubscribe (clearRequestTimeout rq))"

definition request_step :: "request_event \<Rightarrow> DeviceRequest \<Rightarrow> DeviceRequest" where
  "request_step e rq =
     (case e of
        Publication d m \<Rightarrow> if subscribed rq then handler d m rq else rq
      | Clock now \<Rightarrow> if timeoutArmed rq \<and> now \<ge> timeoutAt rq then timeoutFired rq else rq)"

section \<open>Device Relay: replacement of a connection\<close>

definition deviceKey1 :: string where
  "deviceKey1 = ''0123456789abcdef0123456789abcdef''"

definition acceptAll :: "string \<Rightarrow> string \<Rightarrow> bool" where
  "acceptAll d k = True"

text \<open>
  The replacement scenario: device \<open>BRW-01ABCDEF\<close> connects on socket 1, connects again on
  socket 2, and then the close event of socket 1 is processed.
\<close>

definition replaced2 :: DeviceRelay where
  "replaced2 =
     relay_step acceptAll 2000 (DeviceConnect 2 (Some ''BRW-01ABCDEF'') (Some deviceKey1))
       (relay_step acceptAll 1000 (DeviceConnect 1 (Some ''BRW-01ABCDEF'') (Some deviceKey1))
          newDeviceRelay)"

definition replaced3 :: DeviceRelay where
  "replaced3 = relay_step acceptAll 2100 (DeviceClosed 1) replaced2"

lemmas relay_eval =
  relay_step_def DeviceRelay_handleConnection_def validDeviceId_def hexDigit_def
  newDeviceRelay_def devices_get_def on_socket_def ws_close_def openSocket_def
  updateDeviceStatus_def sendToDevice_def ws_send_def msg_at_def msg_def notifyHandlers_def
  on_close_def ws_closed_def getConnectedDeviceCount_def isDeviceConnected_def
  deviceKey1_def acceptAll_def Let_def

text \<open>
  C1. Claim: after a second authenticated connection for a device id is accepted, the prior
  connection is closed with code 4002 and the registry holds exactly the new connection,
  also after the close event of the replaced socket has been processed.
  The code closes the prior socket with 4002 and registers the new connection, so the
  count is 1 right after the accept. The close handler of the replaced socket then deletes
  the registry entry by device id, whichever connection it holds: the count is 0, the new
  socket is still open, and the device is reported as not connected.
\<close>

theorem replacement_close_handler_removes_new_entry:
  "closeCalled (sockets replaced2 1) = Some (4002, ''Replaced by new connection'') \<and>
   map_of (devices replaced2) ''BRW-01ABCDEF'' = Some 2 \<and>
   getConnectedDeviceCount replaced2 = 1 \<and>
   readyState (sockets replaced3 2) = OPEN \<and>
   map_of (devices replaced3) ''BRW-01ABCDEF'' = None \<and>
   getConnectedDeviceCount replaced3 = 0 \<and>
   isDeviceConnected replaced3 ''BRW-01ABCDEF'' = False"
  by (simp add: replaced3_def replaced2_def relay_eval)

text \<open>
  C2. Claim: on a replacement the new session's \<open>device_online\<close> is published after the
  previous session's \<open>device_offline\<close> and before any device message of the new session.
  In the replacement scenario the relay publishes the new session's \<open>device_online\<close>
  during the accept, and the previous session's \<open>device_offline\<close> only when the close
  event of the replaced socket is processed, that is after it.
\<close>

theorem replacement_offline_published_after_online:
  "map (\<lambda>p. (fst p, msg_type (snd p))) (published replaced2) =
     [(''BRW-01ABCDEF'', ''device_online''), (''BRW-01ABCDEF'', ''device_online'')] \<and>
   map (\<lambda>p. (fst p, msg_type (snd p))) (published replaced3) =
     [(''BRW-01ABCDEF'', ''device_online''), (''BRW-01ABCDEF'', ''device_online''),
      (''BRW-01ABCDEF'', ''device_offline'')] \<and>
   statusUpdates replaced3 =
     [(''BRW-01ABCDEF'', True), (''BRW-01ABCDEF'', True), (''BRW-01ABCDEF'', False)]"
  by (simp add: replaced3_def replaced2_def relay_eval)

section \<open>Keep-alive counters\<close>

lemma clientConns_on_clientSocket [simp]: "clientConns (on_clientSocket w f P) = clientConns P"
  by (simp add: on_clientSocket_def)

lemma clientConns_sendToClient [simp]: "clientConns (sendToClient c m P) = clientConns P"
  by (simp add: sendToClient_def)

lemma clientConns_relaySend [simp]: "clientConns (snd (relaySend d m P)) = clientConns P"
  by (simp add: relaySend_def Let_def)

lemma clientConns_queueMessageForDevice [simp]:
  "clientConns (queueMessageForDevice now d m sid P) = clientConns P"
  by (simp add: queueMessageForDevice_def Let_def)

lemma clientConns_modify_client:
  "clientConns (modify_client a f P) b = (if b = a then map_option f (clientConns P a) else clientConns P b)"
  by (simp add: modify_client_def)

definition pongsOf :: "ClientProxy \<Rightarrow> sock \<Rightarrow> nat option" where
  "pongsOf P a = map_option missedPongs (clientConns P a)"

lemma pongsOf_modify_client:
  "(\<And>c. missedPongs (f c) = missedPongs c) \<Longrightarrow> pongsOf (modify_client a f P) b = pongsOf P b"
  by (simp add: pongsOf_def clientConns_modify_client option.map_comp comp_def)

lemma pongsOf_sendToClient [simp]: "pongsOf (sendToClient c m P) b = pongsOf P b"
  by (simp add: pongsOf_def)

lemma pongsOf_relaySend [simp]: "pongsOf (snd (relaySend d m P)) b = pongsOf P b"
  by (simp add: pongsOf_def)

lemma pongsOf_queueMessageForDevice [simp]:
  "pongsOf (queueMessageForDevice now d m sid P) b = pongsOf P b"
  by (simp add: pongsOf_def)

lemma missedPongs_setup [simp]: "missedPongs (setupTokenExpiryWarning now c) = missedPongs c"
  by (simp add: setupTokenExpiryWarning_def Let_def)

lemma pongsOf_handleAuthRefresh:
  "pongsOf (handleAuthRefresh v now a m P) b = pongsOf P b"
  by (simp add: handleAuthRefresh_def Let_def pongsOf_modify_client
      split: option.splits)

lemma pongsOf_handleClientMessage:
  "pongsOf (handleClientMessage v now a m P) b = pongsOf P b"
  by (simp add: handleClientMessage_def Let_def pongsOf_handleAuthRefresh pongsOf_modify_client
      split: option.splits)

lemma pongsOf_client_on_message:
  "pongsOf (client_on_message v now w parsed P) b = pongsOf P b"
proof -
  have "pongsOf (P\<lparr>totalMessages := n\<rparr>) b = pongsOf P b" for P n
    by (simp add: pongsOf_def)
  then show ?thesis
    by (simp add: client_on_message_def Let_def pongsOf_handleClientMessage pongsOf_modify_client
      split: option.splits)
qed

lemma conns_notifyHandlers [simp]: "conns (notifyHandlers d m R) = conns R"
  by (simp add: notifyHandlers_def)

lemma conns_handleDeviceMessage [simp]: "conns (handleDeviceMessage now d m R) = conns R"
  by (simp add: handleDeviceMessage_def)

lemma conns_handleEach [simp]: "conns (handleEach now d ms R) = conns R"
  by (induction ms arbitrary: R) simp_all

lemma conns_singleDecode [simp]: "conns (singleDecode now d r R) = conns R"
  by (simp add: singleDecode_def split: option.splits)

definition services1 :: services where
  "services1 = \<lparr>verifyDeviceKey = acceptAll,
     verifyAccessToken = (\<lambda>t. Some \<lparr>user_id = ''u1'', user_email = ''u1@example.org'',
                                      access_expires_at = 10000000\<rparr>),
     userOwnsDevice = (\<lambda>u d. True)\<rparr>"

text \<open>
  A client connects on client socket 1 for device \<open>BRW-01ABCDEF\<close> (offline), and one
  keep-alive sweep of the proxy passes.
\<close>

definition clientUp :: ClientProxy where
  "clientUp = step services1 500 (ClientConnect 1 (Some ''token'') (Some ''BRW-01ABCDEF'') ''s1'')
     (newClientProxy newDeviceRelay)"

definition clientSwept :: ClientProxy where
  "clientSwept = step services1 30500 ClientPingSweep clientUp"

definition brewStart :: DeviceMessage where
  "brewStart = msg ''brew_start'' []"

lemma missedPongs_pongUpdate [simp]: "missedPongs (pongUpdate now c) = 0"
  by (simp add: pongUpdate_def Let_def split: option.splits)

lemmas proxy_eval =
  step_def services1_def clientUp_def clientSwept_def brewStart_def newClientProxy_def
  ClientProxy_handleConnection_def newConnection_def registerClient_def set_add_def
  modify_client_def
  setupTokenExpiryWarning_def TOKEN_EXPIRY_WARNING_MS_def sendToClient_def on_clientSocket_def
  connectedFrame_def isoOrNull_def hydrate_def sendCached_def relaySend_def
  getDeviceLastSeen_def pingAllClients_def pingClient_def MAX_MISSED_PONGS_def ws_ping_def
  client_on_message_def handleClientMessage_def queueMessageForDevice_def
  MAX_QUEUED_MESSAGES_def queueLength_def deviceStatusOffline_def MESSAGE_QUEUE_TTL_MS_def
  client_on_pong_def pongUpdate_def

text \<open>
  C3 (as stated). Claim: any frame received from a client, data frame or pong, resets that
  connection's \<open>missedPongs\<close> to zero. After one sweep the counter of the client is 1, and
  a data frame received then leaves it at 1: the client's message handler writes
  \<open>lastActivity\<close> and the message counters only.
\<close>

theorem client_data_frame_keeps_missedPongs:
  "map_option missedPongs (clientConns clientSwept 1) = Some 1 \<and>
   map_option missedPongs
     (clientConns (step services1 31000 (ClientFrame 1 (Some brewStart)) clientSwept) 1) = Some 1"
  by (simp add: proxy_eval relay_eval)

text \<open>
  C3 (amended). For every client connection, a pong frame resets \<open>missedPongs\<close> to zero
  and a data frame leaves \<open>missedPongs\<close> as it was; for every device connection, a pong
  frame and any other frame (whatever the decoders make of it) reset \<open>missedPings\<close> to
  zero.
\<close>

theorem keepalive_counter_resets:
  "(clientConns P w \<noteq> None \<longrightarrow>
      map_option missedPongs (clientConns (step svc now (ClientPong w) P) w) = Some 0) \<and>
   map_option missedPongs (clientConns (step svc now (ClientFrame w parsed) P) w)
     = map_option missedPongs (clientConns P w) \<and>
   (conns R u \<noteq> None \<longrightarrow>
      map_option missedPings (conns (relay_step v now (DevicePong u) R) u) = Some 0 \<and>
      map_option missedPings (conns (relay_step v now (DeviceFrame u data) R) u) = Some 0)"
proof (intro conjI impI)
  assume c: "clientConns P w \<noteq> None"
  then show "map_option missedPongs (clientConns (step svc now (ClientPong w) P) w) = Some 0"
    by (auto simp add: step_def client_on_pong_def clientConns_modify_client)
next
  have "pongsOf (step svc now (ClientFrame w parsed) P) w = pongsOf P w"
    by (simp add: step_def pongsOf_client_on_message)
  then show "map_option missedPongs (clientConns (step svc now (ClientFrame w parsed) P) w)
      = map_option missedPongs (clientConns P w)"
    by (simp add: pongsOf_def)
next
  assume d: "conns R u \<noteq> None"
  then show "map_option missedPings (conns (relay_step v now (DevicePong u) R) u) = Some 0"
    by (auto simp add: relay_step_def on_pong_def)
  from d show "map_option missedPings (conns (relay_step v now (DeviceFrame u data) R) u) = Some 0"
    by (auto simp add: relay_step_def on_message_def Let_def split: RawData.splits option.splits)
qed

theorem keepalive_counter_resets_witness:
  "clientConns clientSwept 1 \<noteq> None \<and>
   map_option missedPongs (clientConns (step services1 31000 (ClientPong 1) clientSwept) 1) = Some 0 \<and>
   conns replaced2 2 \<noteq> None \<and>
   map_option missedPings
     (conns (relay_step acceptAll 31000 (DeviceFrame 2 (Text None)) replaced2) 2) = Some 0"
proof -
  have h1: "clientConns clientSwept 1 \<noteq> None"
    by (simp add: proxy_eval relay_eval)
  have h2: "conns replaced2 2 \<noteq> None"
    by (simp add: replaced2_def relay_eval)
  from h1 h2
    keepalive_counter_resets [of clientSwept 1 services1 31000 None replaced2 2 acceptAll "Text None"]
  show ?thesis by blast
qed

section \<open>State cache and hydration of a new client\<close>

text \<open>
  Observations used in the statements: the frames sent so far to a client socket and to
  the socket registered for a device, and the slots of a cache entry that are present,
  in the order given.
\<close>

fun present :: "'a option list \<Rightarrow> 'a list" where
  "present [] = []"
| "present (None # xs) = present xs"
| "present (Some x # xs) = x # present xs"

definition deviceOutbox :: "DeviceRelay \<Rightarrow> string \<Rightarrow> DeviceMessage list" where
  "deviceOutbox R d = (case devices_get R d of None \<Rightarrow> [] | Some c \<Rightarrow> outbox (sockets R (ws c)))"

definition clientOutbox :: "ClientProxy \<Rightarrow> sock \<Rightarrow> DeviceMessage list" where
  "clientOutbox P w = outbox (clientSockets P w)"

definition emptyCache :: "int \<Rightarrow> DeviceStateCache" where
  "emptyCache now = \<lparr>status = None, device_info = None, esp_status = None, pico_status = None,
      lastUpdated = now\<rparr>"

definition deviceUp :: ClientProxy where
  "deviceUp = step services1 1000
     (Device (DeviceConnect 1 (Some ''BRW-01ABCDEF'') (Some deviceKey1)))
     (newClientProxy newDeviceRelay)"

definition statusMsg :: DeviceMessage where
  "statusMsg = msg ''status'' [(''temperature'', JNum 93)]"

definition statusCached :: ClientProxy where
  "statusCached = step services1 2000 (Device (DeviceFrame 1 (Text (Some statusMsg)))) deviceUp"

definition deltaMsg :: DeviceMessage where
  "deltaMsg = msg ''status_delta'' [(''temperature'', JNum 94)]"

lemmas system_eval =
  deviceEvent_def dispatch_def onDeviceMessage_def CACHED_MESSAGE_TYPES_def
  updateStateCache_def broadcastToDeviceClients_def broadcastOne_def clients_get_def
  flushPendingMessages_def clearStateCache_def on_message_def singleDecode_def
  handleDeviceMessage_def deviceUp_def statusMsg_def statusCached_def deltaMsg_def
  clientOutbox_def deviceOutbox_def CACHE_STALE_THRESHOLD_MS_def

lemma updateStateCache_delta:
  assumes "msg_type m = ''status_delta''"
  shows "updateStateCache now d m P =
     P\<lparr>deviceStateCache := AList.update d
         (case map_of (deviceStateCache P) d of None \<Rightarrow> emptyCache now | Some c \<Rightarrow> c\<lparr>lastUpdated := now\<rparr>)
         (deviceStateCache P)\<rparr>"
  using assms by (simp add: updateStateCache_def emptyCache_def Let_def split: option.splits)

lemma present_append: "present xs @ present ys = present (xs @ ys)"
  by (induction xs rule: present.induct) simp_all

lemma sendToClient_open:
  "readyState (clientSockets P (c_ws c)) = OPEN \<Longrightarrow>
   sendToClient c m P = P\<lparr>clientSockets := (clientSockets P)(c_ws c := (clientSockets P (c_ws c))\<lparr>outbox := outbox (clientSockets P (c_ws c)) @ [m]\<rparr>)\<rparr>"
  by (simp add: sendToClient_def on_clientSocket_def ws_send_def)

lemma sendCached_open:
  "readyState (clientSockets P (c_ws c)) = OPEN \<Longrightarrow>
   sendCached c slot P = P\<lparr>clientSockets := (clientSockets P)(c_ws c := (clientSockets P (c_ws c))\<lparr>outbox := outbox (clientSockets P (c_ws c)) @ present [slot]\<rparr>)\<rparr>"
  by (cases slot) (simp_all add: sendCached_def sendToClient_open)

lemma sendToDevice_connected:
  "isDeviceConnected R d \<Longrightarrow> fst (sendToDevice d m R) \<and> deviceOutbox (snd (sendToDevice d m R)) d = deviceOutbox R d @ [m]"
  by (auto simp add: isDeviceConnected_def sendToDevice_def deviceOutbox_def devices_get_def on_socket_def ws_send_def split: option.splits)

lemma hydrate_outboxes:
  assumes "readyState (clientSockets P (c_ws c)) = OPEN"
  shows "clientOutbox (hydrate now c online P) (c_ws c) = clientOutbox P (c_ws c) @
           (if online then (case map_of (deviceStateCache P) (c_deviceId c) of None \<Rightarrow> []
               | Some e \<Rightarrow> present [status e, device_info e, esp_status e, pico_status e]) else [])"
    and "deviceRelay (hydrate now c online P) =
           (if online \<and> (case map_of (deviceStateCache P) (c_deviceId c) of None \<Rightarrow> True
                 | Some e \<Rightarrow> now - lastUpdated e > 10000)
            then snd (sendToDevice (c_deviceId c) (msg_at ''request_state'' now []) (deviceRelay P))
            else deviceRelay P)"
  using assms
  by (auto simp add: hydrate_def Let_def clientOutbox_def sendCached_open relaySend_def CACHE_STALE_THRESHOLD_MS_def
      present_append split: option.splits)


lemma newConnection_sel [simp]:
  "c_ws (newConnection now w uuid sr d) = w" "c_deviceId (newConnection now w uuid sr d) = d"
  "sessionId (newConnection now w uuid sr d) = uuid"
  by (simp_all add: newConnection_def)

lemma registered_frame [simp]:
  "clientSockets (modify_client a f P) = clientSockets P"
  "deviceRelay (modify_client a f P) = deviceRelay P"
  "deviceStateCache (modify_client a f P) = deviceStateCache P"
  "clientSockets (registerClient c P) = clientSockets P"
  "deviceRelay (registerClient c P) = deviceRelay P"
  "deviceStateCache (registerClient c P) = deviceStateCache P"
  by (simp_all add: modify_client_def registerClient_def)

lemma handleConnection_accepted:
  assumes "token \<noteq> []" "d \<noteq> []" "verify token = Some sr"
    "owns (user_id sr) d"
  shows 
     "ClientProxy_handleConnection verify owns now w (Some token) (Some d) uuid P
       = hydrate now (newConnection now w uuid sr d) (isDeviceConnected (deviceRelay P) d)
           (sendToClient (newConnection now w uuid sr d)
              (connectedFrame now uuid d (isDeviceConnected (deviceRelay P) d)
              (getDeviceLastSeen (deviceRelay P) d) (access_expires_at sr))
              (modify_client w (setupTokenExpiryWarning now)
                 ((registerClient (newConnection now w uuid sr d) P)
                    \<lparr>totalConnections := Suc (totalConnections (registerClient (newConnection now w uuid sr d) P))\<rparr>)))"
  using assms
  by (simp add: ClientProxy_handleConnection_def Let_def)

lemma deviceStateCache_sendToClient [simp]: "deviceStateCache (sendToClient c m P) = deviceStateCache P"
  by (simp add: sendToClient_def on_clientSocket_def)

lemma deviceStateCache_broadcastOne [simp]: "deviceStateCache (broadcastOne m sid P) = deviceStateCache P"
  by (simp add: broadcastOne_def split: option.splits)

lemma deviceStateCache_fold_broadcastOne [simp]:
  "deviceStateCache (fold (broadcastOne m) sids P) = deviceStateCache P"
  by (induction sids arbitrary: P) simp_all

lemma deviceStateCache_broadcast [simp]:
  "deviceStateCache (broadcastToDeviceClients d m P) = deviceStateCache P"
  by (simp add: broadcastToDeviceClients_def split: option.splits)

lemma statusCached_entry:
  "map_of (deviceStateCache statusCached) ''BRW-01ABCDEF'' =
     Some \<lparr>status = Some (statusMsg\<lparr>msg_deviceId := Some ''BRW-01ABCDEF'',
                                      msg_timestamp := Some 2000\<rparr>),
            device_info = None, esp_status = None, pico_status = None, lastUpdated = 2000\<rparr>"
  by (simp add: system_eval proxy_eval relay_eval)

text \<open>
  C8. When the state cache processes a \<open>status_delta\<close> for a device, the entry of that
  device keeps its \<open>status\<close>, \<open>device_info\<close>, \<open>esp_status\<close> and \<open>pico_status\<close> slots
  and its \<open>lastUpdated\<close> becomes the current time (an entry that did not exist is created
  with no slot); the entries of other devices and the rest of the proxy are unchanged.
\<close>

theorem status_delta_only_refreshes_lastUpdated:
  assumes "msg_type m = ''status_delta''"
  shows "map_of (deviceStateCache (updateStateCache now d m P)) d =
           Some (case map_of (deviceStateCache P) d of
                   None \<Rightarrow> \<lparr>status = None, device_info = None, esp_status = None,
                             pico_status = None, lastUpdated = now\<rparr>
                 | Some c \<Rightarrow> c\<lparr>lastUpdated := now\<rparr>) \<and>
         (d' \<noteq> d \<longrightarrow> map_of (deviceStateCache (updateStateCache now d m P)) d' =
                       map_of (deviceStateCache P) d') \<and>
         updateStateCache now d m P =
           P\<lparr>deviceStateCache := deviceStateCache (updateStateCache now d m P)\<rparr>"
  using assms 
  by (simp add: updateStateCache_delta emptyCache_def update_conv' split: option.splits)

theorem status_delta_only_refreshes_lastUpdated_witness:
  "msg_type deltaMsg = ''status_delta'' \<and>
   map_of (deviceStateCache (updateStateCache 2500 ''BRW-01ABCDEF'' deltaMsg statusCached))
     ''BRW-01ABCDEF'' =
     Some \<lparr>status = Some (statusMsg\<lparr>msg_deviceId := Some ''BRW-01ABCDEF'',
                                      msg_timestamp := Some 2000\<rparr>),
            device_info = None, esp_status = None, pico_status = None, lastUpdated = 2500\<rparr>"
proof -
  have h: "msg_type deltaMsg = ''status_delta''"
    by (simp add: deltaMsg_def msg_def)
  from status_delta_only_refreshes_lastUpdated [OF h, of 2500 "''BRW-01ABCDEF''" statusCached]
  show ?thesis
    using h by (simp add: statusCached_entry)
qed

text \<open>
  C5. On client connect (token and device given, token verified, device owned, the new
  socket open) the client is sent the \<open>connected\<close> frame and then: with the device online
  and a cache entry for it, the cached \<open>status\<close>, \<open>device_info\<close>, \<open>esp_status\<close>,
  \<open>pico_status\<close> in that order, absent slots omitted, and a \<open>request_state\<close> goes to
  the device if and only if the entry is older than 10 s; with the device online and no
  cache entry, a \<open>request_state\<close> goes to the device; with the device offline, no cached
  frame is sent and the relay is untouched.
\<close>

theorem hydration_on_connect:
  assumes "token \<noteq> []" "d \<noteq> []" "verify token = Some sr"
    "owns (user_id sr) d" "readyState (clientSockets P w) = OPEN"
  shows "let P' = ClientProxy_handleConnection verify owns now w
                    (Some token) (Some d) uuid P;
             online = isDeviceConnected (deviceRelay P) d;
             cached = map_of (deviceStateCache P) d
         in clientOutbox P' w =
              clientOutbox P w @
              [connectedFrame now uuid d online (getDeviceLastSeen (deviceRelay P) d)
                 (access_expires_at sr)] @
              (if online then
                 (case cached of
                    None \<Rightarrow> []
                  | Some e \<Rightarrow> present [status e, device_info e, esp_status e, pico_status e])
               else []) \<and>
            deviceOutbox (deviceRelay P') d =
              deviceOutbox (deviceRelay P) d @
              (if online \<and> (case cached of None \<Rightarrow> True
                              | Some e \<Rightarrow> now - lastUpdated e > 10000)
               then [msg_at ''request_state'' now []] else []) \<and>
            (\<not> online \<longrightarrow> deviceRelay P' = deviceRelay P)"
proof -
  let ?c = "newConnection now w uuid sr d"
  let ?P3 = "modify_client w (setupTokenExpiryWarning now)
                 ((registerClient ?c P)
                    \<lparr>totalConnections := Suc (totalConnections (registerClient ?c P))\<rparr>)"
  have eq: "ClientProxy_handleConnection verify owns now w (Some token) (Some d) uuid P
       = hydrate now ?c (isDeviceConnected (deviceRelay P) d)
           (sendToClient ?c (connectedFrame now uuid d (isDeviceConnected (deviceRelay P) d)
              (getDeviceLastSeen (deviceRelay P) d) (access_expires_at sr)) ?P3)"
    using assms(1-4) by (rule handleConnection_accepted)
  have fr: "clientSockets ?P3 = clientSockets P" "deviceRelay ?P3 = deviceRelay P"
      "deviceStateCache ?P3 = deviceStateCache P"
    by simp_all
  have c: "c_ws ?c = w" "c_deviceId ?c = d" by simp_all
  let ?F = "connectedFrame now uuid d (isDeviceConnected (deviceRelay P) d)
              (getDeviceLastSeen (deviceRelay P) d) (access_expires_at sr)"
  let ?P4 = "sendToClient ?c ?F ?P3"
  have op3: "readyState (clientSockets ?P3 (c_ws ?c)) = OPEN"
    using assms(5) fr by simp
  have P4: "clientOutbox ?P4 w = clientOutbox P w @ [?F]" "deviceRelay ?P4 = deviceRelay P"
    "deviceStateCache ?P4 = deviceStateCache P" "readyState (clientSockets ?P4 (c_ws ?c)) = OPEN"
    using op3 fr by (simp_all add: sendToClient_open clientOutbox_def)
  show ?thesis
    unfolding Let_def eq
    using hydrate_outboxes [OF P4(4), of now "isDeviceConnected (deviceRelay P) d"] P4(1-3) c
      sendToDevice_connected [of "deviceRelay P" d "msg_at ''request_state'' now []"]
    by (auto split: option.splits)
qed

theorem hydration_on_connect_witness:
  "readyState (clientSockets statusCached 1) = OPEN \<and>
   isDeviceConnected (deviceRelay statusCached) ''BRW-01ABCDEF'' \<and>
   clientOutbox
     (ClientProxy_handleConnection (verifyAccessToken services1) (userOwnsDevice services1) 5000 1
        (Some ''token'') (Some ''BRW-01ABCDEF'') ''s1'' statusCached) 1 =
     [connectedFrame 5000 ''s1'' ''BRW-01ABCDEF'' True (Some 2000) 10000000,
      statusMsg\<lparr>msg_deviceId := Some ''BRW-01ABCDEF'', msg_timestamp := Some 2000\<rparr>] \<and>
   deviceOutbox
     (deviceRelay
        (ClientProxy_handleConnection (verifyAccessToken services1) (userOwnsDevice services1) 5000 1
           (Some ''token'') (Some ''BRW-01ABCDEF'') ''s1'' statusCached)) ''BRW-01ABCDEF'' =
     deviceOutbox (deviceRelay statusCached) ''BRW-01ABCDEF''"
proof -
  let ?sr = "\<lparr>user_id = ''u1'', user_email = ''u1@example.org'', access_expires_at = 10000000\<rparr>"
  have h: "''token'' \<noteq> []" "''BRW-01ABCDEF'' \<noteq> []"
    "verifyAccessToken services1 ''token'' = Some ?sr"
    "userOwnsDevice services1 (user_id ?sr) ''BRW-01ABCDEF''"
    by (simp_all add: services1_def)
  have opn: "readyState (clientSockets statusCached 1) = OPEN"
    by (simp add: system_eval proxy_eval relay_eval)
  have online: "isDeviceConnected (deviceRelay statusCached) ''BRW-01ABCDEF''"
    by (simp add: system_eval proxy_eval relay_eval)
  have seen: "getDeviceLastSeen (deviceRelay statusCached) ''BRW-01ABCDEF'' = Some 2000"
    by (simp add: system_eval proxy_eval relay_eval)
  have empty: "clientOutbox statusCached 1 = []"
    by (simp add: system_eval proxy_eval relay_eval)
  from hydration_on_connect
    [of "''token''" "''BRW-01ABCDEF''" "verifyAccessToken services1" ?sr
       "userOwnsDevice services1" statusCached 1 5000 "''s1''"]
  show ?thesis
    using h opn online seen empty by (simp add: Let_def statusCached_entry)
qed

text \<open>
  C10. If the first publication cached for a device is a \<open>status_delta\<close>, the proxy
  creates a cache entry with no slot and \<open>lastUpdated\<close> set to the current time; a client
  that connects while that entry is at most 10 s old is sent the \<open>connected\<close> frame and
  no cached frame, and nothing is sent to the device.
\<close>

theorem delta_only_cache_gives_no_state:
  "(map_of (deviceStateCache P) d = None \<and> msg_type m = ''status_delta'' \<longrightarrow>
      map_of (deviceStateCache (onDeviceMessage t0 d m P)) d =
        Some \<lparr>status = None, device_info = None, esp_status = None, pico_status = None,
               lastUpdated = t0\<rparr>) \<and>
   (map_of (deviceStateCache Q) d =
        Some \<lparr>status = None, device_info = None, esp_status = None, pico_status = None,
               lastUpdated = t0\<rparr> \<and>
    now - t0 \<le> 10000 \<and>
    token \<noteq> [] \<and> d \<noteq> [] \<and> verify token = Some sr \<and> owns (user_id sr) d \<and>
    readyState (clientSockets Q w) = OPEN \<longrightarrow>
      clientOutbox (ClientProxy_handleConnection verify owns now w (Some token) (Some d) uuid Q) w =
        clientOutbox Q w @
        [connectedFrame now uuid d (isDeviceConnected (deviceRelay Q) d)
           (getDeviceLastSeen (deviceRelay Q) d) (access_expires_at sr)] \<and>
      deviceRelay (ClientProxy_handleConnection verify owns now w (Some token) (Some d) uuid Q) =
        deviceRelay Q)"
proof (intro conjI impI)
  assume "map_of (deviceStateCache P) d = None \<and> msg_type m = ''status_delta''"
  then show "map_of (deviceStateCache (onDeviceMessage t0 d m P)) d =
        Some \<lparr>status = None, device_info = None, esp_status = None, pico_status = None,
               lastUpdated = t0\<rparr>"
    by (simp add: onDeviceMessage_def Let_def CACHED_MESSAGE_TYPES_def updateStateCache_delta
        emptyCache_def update_conv')
next
  assume a: "map_of (deviceStateCache Q) d =
        Some \<lparr>status = None, device_info = None, esp_status = None, pico_status = None,
               lastUpdated = t0\<rparr> \<and>
    now - t0 \<le> 10000 \<and>
    token \<noteq> [] \<and> d \<noteq> [] \<and> verify token = Some sr \<and> owns (user_id sr) d \<and>
    readyState (clientSockets Q w) = OPEN"
  let ?c = "newConnection now w uuid sr d"
  let ?F = "connectedFrame now uuid d (isDeviceConnected (deviceRelay Q) d)
              (getDeviceLastSeen (deviceRelay Q) d) (access_expires_at sr)"
  let ?P3 = "modify_client w (setupTokenExpiryWarning now)
                 ((registerClient ?c Q)
                    \<lparr>totalConnections := Suc (totalConnections (registerClient ?c Q))\<rparr>)"
  let ?P4 = "sendToClient ?c ?F ?P3"
  have eq: "ClientProxy_handleConnection verify owns now w (Some token) (Some d) uuid Q
       = hydrate now ?c (isDeviceConnected (deviceRelay Q) d) ?P4"
    using a by (simp add: handleConnection_accepted)
  have op3: "readyState (clientSockets ?P3 (c_ws ?c)) = OPEN"
    using a by simp
  have P4: "clientOutbox ?P4 w = clientOutbox Q w @ [?F]" "deviceRelay ?P4 = deviceRelay Q"
    "deviceStateCache ?P4 = deviceStateCache Q" "readyState (clientSockets ?P4 (c_ws ?c)) = OPEN"
    using op3 by (simp_all add: sendToClient_open clientOutbox_def)
  from hydrate_outboxes [OF P4(4), of now "isDeviceConnected (deviceRelay Q) d"] P4(1-3) a
  show "clientOutbox (ClientProxy_handleConnection verify owns now w (Some token) (Some d) uuid Q) w =
        clientOutbox Q w @ [?F]"
    and "deviceRelay (ClientProxy_handleConnection verify owns now w (Some token) (Some d) uuid Q) =
        deviceRelay Q"
    unfolding eq by simp_all
qed

definition deltaFirst :: ClientProxy where
  "deltaFirst = step services1 2000 (Device (DeviceFrame 1 (Text (Some deltaMsg)))) deviceUp"

theorem delta_only_cache_gives_no_state_witness:
  "map_of (deviceStateCache deviceUp) ''BRW-01ABCDEF'' = None \<and>
   map_of (deviceStateCache (onDeviceMessage 2000 ''BRW-01ABCDEF'' deltaMsg deviceUp))
     ''BRW-01ABCDEF'' =
     Some \<lparr>status = None, device_info = None, esp_status = None, pico_status = None,
            lastUpdated = 2000\<rparr> \<and>
   isDeviceConnected (deviceRelay deltaFirst) ''BRW-01ABCDEF'' \<and>
   clientOutbox
     (ClientProxy_handleConnection (verifyAccessToken services1) (userOwnsDevice services1) 5000 1
        (Some ''token'') (Some ''BRW-01ABCDEF'') ''s1'' deltaFirst) 1 =
     [connectedFrame 5000 ''s1'' ''BRW-01ABCDEF'' True (Some 2000) 10000000] \<and>
   deviceRelay
     (ClientProxy_handleConnection (verifyAccessToken services1) (userOwnsDevice services1) 5000 1
        (Some ''token'') (Some ''BRW-01ABCDEF'') ''s1'' deltaFirst) = deviceRelay deltaFirst"
proof -
  let ?sr = "\<lparr>user_id = ''u1'', user_email = ''u1@example.org'', access_expires_at = 10000000\<rparr>"
  let ?d = "''BRW-01ABCDEF''"
  have none: "map_of (deviceStateCache deviceUp) ?d = None"
    by (simp add: system_eval proxy_eval relay_eval)
  have delta: "msg_type deltaMsg = ''status_delta''"
    by (simp add: deltaMsg_def msg_def)
  have entry: "map_of (deviceStateCache deltaFirst) ?d =
     Some \<lparr>status = None, device_info = None, esp_status = None, pico_status = None,
            lastUpdated = 2000\<rparr>"
    by (simp add: deltaFirst_def system_eval proxy_eval relay_eval)
  have h: "5000 - 2000 \<le> (10000::int)" "''token'' \<noteq> []" "?d \<noteq> []"
    "verifyAccessToken services1 ''token'' = Some ?sr"
    "userOwnsDevice services1 (user_id ?sr) ?d"
    by (simp_all add: services1_def)
  have opn: "readyState (clientSockets deltaFirst 1) = OPEN"
    by (simp add: deltaFirst_def system_eval proxy_eval relay_eval)
  have online: "isDeviceConnected (deviceRelay deltaFirst) ?d"
    by (simp add: deltaFirst_def system_eval proxy_eval relay_eval)
  have seen: "getDeviceLastSeen (deviceRelay deltaFirst) ?d = Some 2000"
    by (simp add: deltaFirst_def system_eval proxy_eval relay_eval)
  have empty: "clientOutbox deltaFirst 1 = []"
    by (simp add: deltaFirst_def system_eval proxy_eval relay_eval)
  from delta_only_cache_gives_no_state
    [of deviceUp ?d deltaMsg 2000 deltaFirst 5000 "''token''" "verifyAccessToken services1" ?sr
       "userOwnsDevice services1" 1 "''s1''"]
  show ?thesis
    using none delta entry h opn online seen empty by simp
qed

section \<open>Pending-message queue\<close>

text \<open>The invariant: every queue of the pending-message map holds at most 50 entries.\<close>

definition bounded :: "ClientProxy \<Rightarrow> bool" where
  "bounded P = list_all (\<lambda>e. length (snd e) \<le> MAX_QUEUED_MESSAGES) (pendingMessages P)"

lemma list_all_update:
  "list_all Q al \<Longrightarrow> Q (k, v) \<Longrightarrow> list_all Q (AList.update k v al)"
  by (induction al) auto

lemma list_all_delete: "list_all Q al \<Longrightarrow> list_all Q (AList.delete k al)"
  by (auto simp add: AList.delete_eq list_all_iff)

lemma list_all_map_of: "list_all Q al \<Longrightarrow> map_of al k = Some v \<Longrightarrow> Q (k, v)"
  by (auto simp add: list_all_iff dest: map_of_SomeD)

lemma pending_frame [simp]:
  "pendingMessages (on_clientSocket w f P) = pendingMessages P"
  "pendingMessages (modify_client a g P) = pendingMessages P"
  "pendingMessages (sendToClient c m P) = pendingMessages P"
  "pendingMessages (snd (relaySend d m P)) = pendingMessages P"
  "pendingMessages (registerClient c P) = pendingMessages P"
  "pendingMessages (unregisterClient c P) = pendingMessages P"
  "pendingMessages (updateStateCache now d m P) = pendingMessages P"
  "pendingMessages (clearStateCache d P) = pendingMessages P"
  "pendingMessages (sendCached c slot P) = pendingMessages P"
  by (simp_all add: on_clientSocket_def modify_client_def sendToClient_def relaySend_def
      registerClient_def unregisterClient_def updateStateCache_def clearStateCache_def
      sendCached_def Let_def split: option.splits)

lemma pending_cleanupClient [simp]: "pendingMessages (cleanupClient a P) = pendingMessages P"
  by (simp add: cleanupClient_def split: option.splits)

lemma pending_broadcastOne [simp]: "pendingMessages (broadcastOne m sid P) = pendingMessages P"
  by (simp add: broadcastOne_def split: option.splits)

lemma pending_fold_broadcastOne [simp]:
  "pendingMessages (fold (broadcastOne m) sids P) = pendingMessages P"
  by (induction sids arbitrary: P) simp_all

lemma pending_broadcast [simp]:
  "pendingMessages (broadcastToDeviceClients d m P) = pendingMessages P"
  by (simp add: broadcastToDeviceClients_def split: option.splits)

lemma pending_flushOne [simp]: "pendingMessages (flushOne d p P) = pendingMessages P"
  by (simp add: flushOne_def Let_def split: option.splits)

lemma pending_flushEach [simp]: "pendingMessages (flushEach d ps P) = pendingMessages P"
  by (induction ps arbitrary: P) simp_all

lemma pending_hydrate [simp]: "pendingMessages (hydrate now c online P) = pendingMessages P"
  by (simp add: hydrate_def Let_def split: option.splits)

lemma pending_handleConnection [simp]:
  "pendingMessages (ClientProxy_handleConnection v ow now w tp dp uuid P) = pendingMessages P"
  by (simp add: ClientProxy_handleConnection_def Let_def split: option.splits)

lemma pending_handleAuthRefresh [simp]:
  "pendingMessages (handleAuthRefresh v now a m P) = pendingMessages P"
  by (simp add: handleAuthRefresh_def Let_def split: option.splits)

lemma pending_tokenTimerFired [simp]:
  "pendingMessages (tokenTimerFired now w P) = pendingMessages P"
  by (simp add: tokenTimerFired_def Let_def split: option.splits)

lemma pending_pingClient [simp]: "pendingMessages (pingClient now a P) = pendingMessages P"
  by (simp add: pingClient_def Let_def split: option.splits)

lemma pending_fold_pingClient [simp]:
  "pendingMessages (fold (pingClient now) as P) = pendingMessages P"
  by (induction as arbitrary: P) simp_all


lemma bounded_queueMessageForDevice:
  "bounded P \<Longrightarrow> bounded (queueMessageForDevice now d m sid P)"
proof -
  assume b: "bounded P"
  let ?new = "\<lparr>pm_message = m, pm_timestamp = now, retries = 0, clientSessionId = sid\<rparr>"
  let ?queue = "case map_of (pendingMessages P) d of None \<Rightarrow> [] | Some q \<Rightarrow> q"
  have "length ?queue \<le> MAX_QUEUED_MESSAGES"
    using b by (auto simp add: bounded_def dest: list_all_map_of split: option.splits)
  then have "length ((if length ?queue \<ge> MAX_QUEUED_MESSAGES then tl ?queue else ?queue) @ [?new])
      \<le> MAX_QUEUED_MESSAGES"
    by (simp add: MAX_QUEUED_MESSAGES_def)
  then show ?thesis
    using b unfolding bounded_def queueMessageForDevice_def Let_def
    by (simp add: list_all_update)
qed

lemma bounded_flushPendingMessages: "bounded P \<Longrightarrow> bounded (flushPendingMessages now d P)"
  by (simp add: bounded_def flushPendingMessages_def Let_def list_all_delete split: option.splits)

lemma bounded_cleanup: "bounded P \<Longrightarrow> bounded (cleanupExpiredQueuedMessages now P)"
  by (auto simp add: bounded_def cleanupExpiredQueuedMessages_def list_all_iff
      intro: le_trans [OF length_filter_le])

lemma bounded_handleClientMessage:
  "bounded P \<Longrightarrow> bounded (handleClientMessage v now a m P)"
proof -
  assume b: "bounded P"
  have 1: "bounded (sendToClient c x Q) = bounded Q" for c x Q
    by (simp add: bounded_def)
  have 2: "bounded (snd (relaySend d x Q)) = bounded Q" for d x Q
    by (simp add: bounded_def)
  have 3: "bounded (modify_client a g Q) = bounded Q" for g Q
    by (simp add: bounded_def)
  have 4: "bounded (handleAuthRefresh v now a m P) = bounded P"
    by (simp add: bounded_def)
  show ?thesis
    using b by (simp add: handleClientMessage_def Let_def 1 2 3 4 bounded_queueMessageForDevice
        split: option.splits)
qed

lemma bounded_client_on_message:
  "bounded P \<Longrightarrow> bounded (client_on_message v now w parsed P)"
proof -
  assume b: "bounded P"
  have "bounded ((modify_client w g P)\<lparr>totalMessages := n\<rparr>)" for g n
    using b by (simp add: bounded_def)
  then show ?thesis
    using b by (simp add: client_on_message_def Let_def bounded_handleClientMessage
        split: option.splits)
qed

lemma bounded_onDeviceMessage: "bounded P \<Longrightarrow> bounded (onDeviceMessage now d m P)"
proof -
  assume b: "bounded P"
  have 1: "bounded (updateStateCache now d m Q) = bounded Q" for Q
    by (simp add: bounded_def)
  have 2: "bounded (broadcastToDeviceClients d m Q) = bounded Q" for Q
    by (simp add: bounded_def)
  have 3: "bounded (clearStateCache d Q) = bounded Q" for Q
    by (simp add: bounded_def)
  show ?thesis
    using b by (simp add: onDeviceMessage_def Let_def 1 2 3 bounded_flushPendingMessages)
qed

lemma bounded_dispatch: "bounded P \<Longrightarrow> bounded (dispatch now pubs P)"
  unfolding dispatch_def
  by (induction pubs arbitrary: P) (simp_all add: bounded_onDeviceMessage)

lemma bounded_deviceEvent: "bounded P \<Longrightarrow> bounded (deviceEvent svc now e P)"
proof -
  assume b: "bounded P"
  have "bounded (P\<lparr>deviceRelay := R\<rparr>)" for R
    using b by (simp add: bounded_def)
  then show ?thesis
    by (simp add: deviceEvent_def Let_def bounded_dispatch)
qed

lemma bounded_step: "bounded P \<Longrightarrow> bounded (step svc now e P)"
proof (cases e)
  case (Device re)
  assume "bounded P"
  then show ?thesis by (simp add: step_def Device bounded_deviceEvent)
next
  case (ClientFrame w parsed)
  assume "bounded P"
  then show ?thesis by (simp add: step_def ClientFrame bounded_client_on_message)
next
  case QueueCleanupSweep
  assume "bounded P"
  then show ?thesis by (simp add: step_def QueueCleanupSweep bounded_cleanup)
qed (simp_all add: step_def bounded_def client_on_pong_def client_on_close_def
       client_on_error_def pingAllClients_def)

lemma reachable_bounded: "reachable P \<Longrightarrow> bounded P"
  by (induction rule: reachable.induct)
     (simp_all add: bounded_step, simp add: bounded_def newClientProxy_def)

definition queued1 :: ClientProxy where
  "queued1 = step services1 31000 (ClientFrame 1 (Some brewStart)) clientSwept"

definition pending1 :: PendingMessage where
  "pending1 = \<lparr>pm_message = brewStart\<lparr>msg_timestamp := Some 31000\<rparr>, pm_timestamp = 31000,
      retries = 0, clientSessionId = ''s1''\<rparr>"

definition fullQueue :: "PendingMessage list" where
  "fullQueue = map (\<lambda>i. \<lparr>pm_message = brewStart, pm_timestamp = int i, retries = 0,
                           clientSessionId = ''s1''\<rparr>) [0..<50]"

definition fullProxy :: ClientProxy where
  "fullProxy = (newClientProxy newDeviceRelay)\<lparr>pendingMessages := [(''BRW-01ABCDEF'', fullQueue)]\<rparr>"

lemma queued1_queue: "map_of (pendingMessages queued1) ''BRW-01ABCDEF'' = Some [pending1]"
  by (simp add: queued1_def pending1_def proxy_eval relay_eval)

text \<open>
  C7. In every reachable state of the relay plane and for every device id, the pending
  queue of that id holds at most 50 entries; an enqueue on a full queue drops the head
  and appends the new entry at the tail (on a queue that is not full it only appends).
\<close>

theorem queue_never_exceeds_capacity:
  "(reachable P \<longrightarrow> queueLength P d \<le> 50) \<and>
   (map_of (pendingMessages P) d = Some q \<and> length q \<ge> 50 \<longrightarrow>
      map_of (pendingMessages (queueMessageForDevice now d m sid P)) d =
        Some (tl q @ [\<lparr>pm_message = m, pm_timestamp = now, retries = 0, clientSessionId = sid\<rparr>])) \<and>
   (map_of (pendingMessages P) d = Some q \<and> length q < 50 \<longrightarrow>
      map_of (pendingMessages (queueMessageForDevice now d m sid P)) d =
        Some (q @ [\<lparr>pm_message = m, pm_timestamp = now, retries = 0, clientSessionId = sid\<rparr>]))"
proof (intro conjI impI)
  assume "reachable P"
  then have "bounded P" by (rule reachable_bounded)
  then show "queueLength P d \<le> 50"
    by (auto simp add: queueLength_def bounded_def MAX_QUEUED_MESSAGES_def
        dest: list_all_map_of split: option.splits)
next
  assume "map_of (pendingMessages P) d = Some q \<and> length q \<ge> 50"
  then show "map_of (pendingMessages (queueMessageForDevice now d m sid P)) d =
        Some (tl q @ [\<lparr>pm_message = m, pm_timestamp = now, retries = 0, clientSessionId = sid\<rparr>])"
    by (simp add: queueMessageForDevice_def Let_def MAX_QUEUED_MESSAGES_def update_conv')
next
  assume "map_of (pendingMessages P) d = Some q \<and> length q < 50"
  then show "map_of (pendingMessages (queueMessageForDevice now d m sid P)) d =
        Some (q @ [\<lparr>pm_message = m, pm_timestamp = now, retries = 0, clientSessionId = sid\<rparr>])"
    by (simp add: queueMessageForDevice_def Let_def MAX_QUEUED_MESSAGES_def update_conv')
qed

theorem queue_never_exceeds_capacity_witness:
  "reachable queued1 \<and> queueLength queued1 ''BRW-01ABCDEF'' \<le> 50 \<and>
   length fullQueue = 50 \<and>
   map_of (pendingMessages (queueMessageForDevice 9000 ''BRW-01ABCDEF'' brewStart ''s2'' fullProxy))
     ''BRW-01ABCDEF'' =
     Some (tl fullQueue @ [\<lparr>pm_message = brewStart, pm_timestamp = 9000, retries = 0,
                             clientSessionId = ''s2''\<rparr>]) \<and>
   map_of (pendingMessages (queueMessageForDevice 32000 ''BRW-01ABCDEF'' brewStart ''s1'' queued1))
     ''BRW-01ABCDEF'' =
     Some [pending1, \<lparr>pm_message = brewStart, pm_timestamp = 32000, retries = 0,
                      clientSessionId = ''s1''\<rparr>]"
proof -
  have r: "reachable queued1"
    unfolding queued1_def clientSwept_def clientUp_def
    by (intro reachable.next_event reachable.start)
  have len: "length fullQueue = 50"
    by (simp add: fullQueue_def)
  have full: "map_of (pendingMessages fullProxy) ''BRW-01ABCDEF'' = Some fullQueue"
    by (simp add: fullProxy_def newClientProxy_def)
  have one: "length [pending1] < 50"
    by simp
  from queue_never_exceeds_capacity [of queued1 "''BRW-01ABCDEF''" "[pending1]" 32000 brewStart "''s1''"]
    queue_never_exceeds_capacity [of fullProxy "''BRW-01ABCDEF''" fullQueue 9000 brewStart "''s2''"]
    r len full one queued1_queue
  show ?thesis by simp
qed

section \<open>Flush of the pending queue on \<open>device_online\<close>\<close>

text \<open>
  \<open>queuedMessageSent\<close> is the notification the flush sends for a delivered entry, and
  \<open>originSocket\<close> the socket of the client that enqueued an entry, while that client is
  still in the session table. \<open>arrived\<close> is the state in which the \<open>device_online\<close>
  publication of the device's accept reaches the proxy: one message of session \<open>s1\<close>
  is queued since 31000 and the device has just been registered at 35000.
\<close>

definition queuedMessageSent :: "PendingMessage \<Rightarrow> DeviceMessage" where
  "queuedMessageSent pending =
     msg ''queued_message_sent''
       [(''originalTimestamp'', JNum (pm_timestamp pending)),
        (''messageType'', JStr (msg_type (pm_message pending)))]"

definition originSocket :: "ClientProxy \<Rightarrow> PendingMessage \<Rightarrow> sock option" where
  "originSocket P pending = map_option c_ws (clients_get P (clientSessionId pending))"

lemma flushOne_offline:
  "\<not> isDeviceConnected (deviceRelay P) d \<Longrightarrow> flushOne d p P = P"
  by (auto simp add: flushOne_def relaySend_def sendToDevice_def isDeviceConnected_def Let_def
      split: option.splits)

lemma flushEach_offline:
  "\<not> isDeviceConnected (deviceRelay P) d \<Longrightarrow> flushEach d ps P = P"
  by (induction ps arbitrary: P) (simp_all add: flushOne_offline)

lemma relaySend_online:
  assumes "isDeviceConnected (deviceRelay P) d"
  shows "fst (relaySend d m P)"
    and "isDeviceConnected (deviceRelay (snd (relaySend d m P))) d"
    and "deviceOutbox (deviceRelay (snd (relaySend d m P))) d = deviceOutbox (deviceRelay P) d @ [m]"
    and "clientSockets (snd (relaySend d m P)) = clientSockets P"
    and "clients (snd (relaySend d m P)) = clients P"
    and "clientConns (snd (relaySend d m P)) = clientConns P"
    and "clientOutbox (snd (relaySend d m P)) a = clientOutbox P a"
  using assms
  by (auto simp add: relaySend_def sendToDevice_def isDeviceConnected_def Let_def deviceOutbox_def
      clientOutbox_def devices_get_def on_socket_def ws_send_def split: option.splits)

lemma sendToClient_effect:
  "deviceRelay (sendToClient c m P) = deviceRelay P"
  "clients (sendToClient c m P) = clients P"
  "readyState (clientSockets (sendToClient c m P) a) = readyState (clientSockets P a)"
  "clientOutbox (sendToClient c m P) a =
     clientOutbox P a @ (if a = c_ws c \<and> readyState (clientSockets P a) = OPEN then [m] else [])"
  by (simp_all add: sendToClient_def on_clientSocket_def ws_send_def clientOutbox_def)

lemma flushOne_online:
  assumes "isDeviceConnected (deviceRelay P) d"
  shows "isDeviceConnected (deviceRelay (flushOne d p P)) d"
    and "deviceOutbox (deviceRelay (flushOne d p P)) d = deviceOutbox (deviceRelay P) d @ [pm_message p]"
    and "clients (flushOne d p P) = clients P"
    and "clientConns (flushOne d p P) = clientConns P"
    and "readyState (clientSockets (flushOne d p P) a) = readyState (clientSockets P a)"
    and "clientOutbox (flushOne d p P) a =
           clientOutbox P a @
           (if originSocket P p = Some a \<and> readyState (clientSockets P a) = OPEN
            then [queuedMessageSent p] else [])"
  using relaySend_online [OF assms]
  by (auto simp add: flushOne_def Let_def sendToClient_effect originSocket_def clients_get_def
      queuedMessageSent_def split: option.splits)

lemma originSocket_cong:
  "clients P' = clients P \<Longrightarrow> clientConns P' = clientConns P \<Longrightarrow> originSocket P' = originSocket P"
  by (rule ext) (simp add: originSocket_def clients_get_def split: option.splits)

lemma flushEach_online:
  assumes "isDeviceConnected (deviceRelay P) d"
  shows "deviceOutbox (deviceRelay (flushEach d ps P)) d =
           deviceOutbox (deviceRelay P) d @ map pm_message ps \<and>
         clientOutbox (flushEach d ps P) a =
           clientOutbox P a @
           (if readyState (clientSockets P a) = OPEN
            then map queuedMessageSent (filter (\<lambda>p. originSocket P p = Some a) ps) else [])"
  using assms
proof (induction ps arbitrary: P)
  case Nil
  then show ?case by simp
next
  case (Cons p ps)
  note on = flushOne_online [OF Cons.prems, of p]
  have os: "originSocket (flushOne d p P) = originSocket P"
    using on(3,4) by (rule originSocket_cong)
  from Cons.IH [OF on(1)] on(2,5,6) os
  show ?case by simp
qed


lemma onDeviceMessage_device_online:
  "msg_type m = ''device_online'' \<Longrightarrow>
   onDeviceMessage now d m P = flushPendingMessages now d (broadcastToDeviceClients d m P)"
  by (simp add: onDeviceMessage_def CACHED_MESSAGE_TYPES_def Let_def)

definition arrived :: ClientProxy where
  "arrived = queued1\<lparr>deviceRelay :=
      relay_step acceptAll 35000 (DeviceConnect 1 (Some ''BRW-01ABCDEF'') (Some deviceKey1))
        (deviceRelay queued1)\<rparr>"

lemma arrived_facts:
  "map_of (pendingMessages arrived) ''BRW-01ABCDEF'' = Some [pending1]"
  "isDeviceConnected (deviceRelay arrived) ''BRW-01ABCDEF''"
  "originSocket arrived pending1 = Some 1"
  "readyState (clientSockets arrived 1) = OPEN"
  by (simp_all add: arrived_def queued1_def pending1_def originSocket_def clients_get_def
      proxy_eval relay_eval)

text \<open>
  C4. When a \<open>device_online\<close> publication arrives for a device whose queue is not empty,
  the flush runs (after the fan-out of the publication itself): entries enqueued more than
  10 s ago are not delivered, the remaining entries are sent to the device in queue order,
  each client socket that is open receives one \<open>queued_message_sent\<close> (original
  timestamp, message type) for each delivered entry its still registered session enqueued,
  and the device's queue is gone afterwards, whether or not the sends succeeded (with the
  device not connected, nothing is sent to anyone).
\<close>

theorem flush_on_device_online:
  assumes "map_of (pendingMessages P) d = Some queue" and "queue \<noteq> []"
  shows "let P' = flushPendingMessages now d P;
             valid = filter (\<lambda>p. now - pm_timestamp p \<le> 10000) queue
         in map_of (pendingMessages P') d = None \<and>
            (isDeviceConnected (deviceRelay P) d \<longrightarrow>
               deviceOutbox (deviceRelay P') d = deviceOutbox (deviceRelay P) d @ map pm_message valid \<and>
               clientOutbox P' a =
                 clientOutbox P a @
                 (if readyState (clientSockets P a) = OPEN
                  then map queuedMessageSent (filter (\<lambda>p. originSocket P p = Some a) valid)
                  else [])) \<and>
            (\<not> isDeviceConnected (deviceRelay P) d \<longrightarrow>
               deviceRelay P' = deviceRelay P \<and> clientSockets P' = clientSockets P) \<and>
            (msg_type m = ''device_online'' \<longrightarrow>
               onDeviceMessage now d m P =
                 flushPendingMessages now d (broadcastToDeviceClients d m P))"
proof -
  let ?valid = "filter (\<lambda>p. now - pm_timestamp p \<le> 10000) queue"
  let ?P1 = "flushEach d ?valid P"
  have v: "filter (\<lambda>pending. \<not> expired now pending) queue = ?valid"
    by (simp add: expired_def MESSAGE_QUEUE_TTL_MS_def not_less)
  have eq: "flushPendingMessages now d P = ?P1\<lparr>pendingMessages := AList.delete d (pendingMessages ?P1)\<rparr>"
    using assms by (simp add: flushPendingMessages_def Let_def v)
  have emptied: "map_of (pendingMessages (flushPendingMessages now d P)) d = None"
    by (simp add: eq delete_conv')
  have online: "deviceOutbox (deviceRelay (flushPendingMessages now d P)) d =
        deviceOutbox (deviceRelay P) d @ map pm_message ?valid \<and>
      clientOutbox (flushPendingMessages now d P) a =
        clientOutbox P a @
        (if readyState (clientSockets P a) = OPEN
         then map queuedMessageSent (filter (\<lambda>p. originSocket P p = Some a) ?valid) else [])"
    if "isDeviceConnected (deviceRelay P) d"
    using flushEach_online [OF that, of ?valid a] by (simp add: eq clientOutbox_def)
  have offline: "deviceRelay (flushPendingMessages now d P) = deviceRelay P \<and>
      clientSockets (flushPendingMessages now d P) = clientSockets P"
    if "\<not> isDeviceConnected (deviceRelay P) d"
    using flushEach_offline [OF that, of ?valid] by (simp add: eq)
  show ?thesis
    unfolding Let_def
    using emptied online offline onDeviceMessage_device_online [of m now d P] by blast
qed

theorem flush_on_device_online_witness:
  "map_of (pendingMessages arrived) ''BRW-01ABCDEF'' = Some [pending1] \<and>
   isDeviceConnected (deviceRelay arrived) ''BRW-01ABCDEF'' \<and>
   map_of (pendingMessages (flushPendingMessages 35000 ''BRW-01ABCDEF'' arrived)) ''BRW-01ABCDEF'' = None \<and>
   deviceOutbox (deviceRelay (flushPendingMessages 35000 ''BRW-01ABCDEF'' arrived)) ''BRW-01ABCDEF'' =
     deviceOutbox (deviceRelay arrived) ''BRW-01ABCDEF'' @ [brewStart\<lparr>msg_timestamp := Some 31000\<rparr>] \<and>
   clientOutbox (flushPendingMessages 35000 ''BRW-01ABCDEF'' arrived) 1 =
     clientOutbox arrived 1 @ [queuedMessageSent pending1] \<and>
   deviceOutbox (deviceRelay (flushPendingMessages 42000 ''BRW-01ABCDEF'' arrived)) ''BRW-01ABCDEF'' =
     deviceOutbox (deviceRelay arrived) ''BRW-01ABCDEF'' \<and>
   clientOutbox (flushPendingMessages 42000 ''BRW-01ABCDEF'' arrived) 1 = clientOutbox arrived 1"
proof -
  have ne: "[pending1] \<noteq> []" by simp
  have ts: "pm_timestamp pending1 = 31000" "pm_message pending1 = brewStart\<lparr>msg_timestamp := Some 31000\<rparr>"
    by (simp_all add: pending1_def)
  from flush_on_device_online [OF arrived_facts(1) ne, of 35000 1 brewStart]
    flush_on_device_online [OF arrived_facts(1) ne, of 42000 1 brewStart]
  show ?thesis
    using arrived_facts ts by (simp add: Let_def)
qed

section \<open>Outcomes of a device request\<close>

text \<open>
  An event is quiet for a request when it is a publication that its handler does not match
  or a clock reading before its timeout. \<open>run_request\<close> feeds a list of events to a
  request. A request is clean when its promise is pending or its handler is unsubscribed
  and its timeout disarmed.
\<close>

definition quiet :: "DeviceRequest \<Rightarrow> request_event \<Rightarrow> bool" where
  "quiet rq e = (case e of Publication d m \<Rightarrow> \<not> matches rq d m | Clock t \<Rightarrow> t < timeoutAt rq)"

definition run_request :: "request_event list \<Rightarrow> DeviceRequest \<Rightarrow> DeviceRequest" where
  "run_request es rq = fold request_step es rq"

definition settled_clean :: "DeviceRequest \<Rightarrow> bool" where
  "settled_clean rq = (promise rq = Pending \<or> (\<not> subscribed rq \<and> \<not> timeoutArmed rq))"

lemma response_not_error: "t @ ''_response'' \<noteq> ''error''"
proof
  assume "t @ ''_response'' = ''error''"
  then have "length (t @ ''_response'') = length ''error''" by (rule arg_cong)
  then show False by simp
qed

lemma request_step_quiet: "quiet rq e \<Longrightarrow> request_step e rq = rq"
  by (cases e) (simp_all add: quiet_def request_step_def handler_def)

lemma run_request_quiet: "list_all (quiet rq) es \<Longrightarrow> run_request es rq = rq"
  unfolding run_request_def
  by (induction es) (simp_all add: request_step_quiet)

lemma settled_clean_step: "settled_clean rq \<Longrightarrow> settled_clean (request_step e rq)"
  by (cases e)
     (auto simp add: settled_clean_def request_step_def handler_def timeoutFired_def resolve_def
        reject_def unsubscribe_def clearRequestTimeout_def Let_def)

lemma settled_clean_run: "settled_clean rq \<Longrightarrow> settled_clean (run_request es rq)"
  unfolding run_request_def
  by (induction es arbitrary: rq) (simp_all add: settled_clean_step)

lemma sendDeviceRequest_sent:
  "fst (sendToDevice d (message\<lparr>msg_requestId := Some rid\<rparr>) R) \<Longrightarrow>
   fst (sendDeviceRequest d message timeout rid now R) =
     \<lparr>rq_deviceId = d, rq_requestId = rid, rq_requestType = msg_type message,
      subscribed = True, timeoutAt = now + timeout, timeoutArmed = True, promise = Pending\<rparr>"
  by (simp add: sendDeviceRequest_def Let_def)

lemma sendDeviceRequest_unsent:
  "\<not> fst (sendToDevice d (message\<lparr>msg_requestId := Some rid\<rparr>) R) \<Longrightarrow>
   fst (sendDeviceRequest d message timeout rid now R) =
     \<lparr>rq_deviceId = d, rq_requestId = rid, rq_requestType = msg_type message,
      subscribed = False, timeoutAt = now + timeout, timeoutArmed = False,
      promise = Rejected ''Device not connected''\<rparr>"
  by (simp add: sendDeviceRequest_def Let_def reject_def unsubscribe_def clearRequestTimeout_def)

definition logRequest :: DeviceMessage where
  "logRequest = msg_at ''get_log_info'' 3000 []"

definition rqUnsent :: DeviceRequest where
  "rqUnsent = fst (sendDeviceRequest ''BRW-01ABCDEF'' logRequest DEFAULT_TIMEOUT ''req_3000_k2x9ab'' 3000
                     newDeviceRelay)"

definition rqSent :: DeviceRequest where
  "rqSent = fst (sendDeviceRequest ''BRW-01ABCDEF'' logRequest DEFAULT_TIMEOUT ''req_3000_k2x9ab'' 3000
                   (deviceRelay deviceUp))"

definition okResponse :: DeviceMessage where
  "okResponse = (msg ''get_log_info_response'' [(''size'', JNum 512)])
     \<lparr>msg_requestId := Some ''req_3000_k2x9ab''\<rparr>"

definition errResponse :: DeviceMessage where
  "errResponse = (msg ''error'' [])
     \<lparr>msg_requestId := Some ''req_3000_k2x9ab'', msg_message := Some ''Log buffer disabled''\<rparr>"

definition quietEvents :: "request_event list" where
  "quietEvents = [Publication ''BRW-01ABCDEF'' statusMsg, Clock 8000,
                  Publication ''BRW-0000000A'' okResponse]"

text \<open>
  C6. For a request sent with the default timeout: if \<open>sendToDevice\<close> returns false the
  promise is rejected at once with "Device not connected"; otherwise, after any quiet
  events, a publication for the same device and request id with type request type +
  \<open>_response\<close> resolves the promise with that message, one with type \<open>error\<close> rejects it
  with the carried message ("Device error" when the message is absent or empty), and the
  clock reaching 10 s after the send rejects it with "Request timeout"; and whatever the
  events, once the promise is settled the handler is no longer subscribed.
\<close>

theorem sendDeviceRequest_outcomes:
  assumes rq: "rq = fst (sendDeviceRequest d message DEFAULT_TIMEOUT rid now R)"
    and sent: "sent = fst (sendToDevice d (message\<lparr>msg_requestId := Some rid\<rparr>) R)"
  shows "(\<not> sent \<longrightarrow>
            promise rq = Rejected ''Device not connected'' \<and> \<not> subscribed rq \<and> \<not> timeoutArmed rq) \<and>
         (sent \<and> list_all (quiet rq) es \<and> msg_requestId response = Some rid \<and>
          msg_type response = msg_type message @ ''_response'' \<longrightarrow>
            promise (request_step (Publication d response) (run_request es rq)) = Resolved response \<and>
            \<not> subscribed (request_step (Publication d response) (run_request es rq))) \<and>
         (sent \<and> list_all (quiet rq) es \<and> msg_requestId response = Some rid \<and>
          msg_type response = ''error'' \<longrightarrow>
            promise (request_step (Publication d response) (run_request es rq)) =
              Rejected (errorText response) \<and>
            (msg_message response = Some txt \<and> txt \<noteq> [] \<longrightarrow> errorText response = txt) \<and>
            \<not> subscribed (request_step (Publication d response) (run_request es rq))) \<and>
         (sent \<and> list_all (quiet rq) es \<and> t \<ge> now + 10000 \<longrightarrow>
            promise (request_step (Clock t) (run_request es rq)) = Rejected ''Request timeout'' \<and>
            \<not> subscribed (request_step (Clock t) (run_request es rq))) \<and>
         (promise (run_request any rq) \<noteq> Pending \<longrightarrow> \<not> subscribed (run_request any rq))"
proof -
  have r: "rq = \<lparr>rq_deviceId = d, rq_requestId = rid, rq_requestType = msg_type message,
      subscribed = True, timeoutAt = now + DEFAULT_TIMEOUT, timeoutArmed = True, promise = Pending\<rparr>"
    if "sent"
    using that by (simp add: rq sent sendDeviceRequest_sent)
  have A: "promise rq = Rejected ''Device not connected'' \<and> \<not> subscribed rq \<and> \<not> timeoutArmed rq"
    if "\<not> sent"
    using that by (simp add: rq sent sendDeviceRequest_unsent)
  have B: "promise (request_step (Publication d response) (run_request es rq)) = Resolved response \<and>
           \<not> subscribed (request_step (Publication d response) (run_request es rq))"
    if "sent \<and> list_all (quiet rq) es \<and> msg_requestId response = Some rid \<and>
        msg_type response = msg_type message @ ''_response''"
  proof -
    from that have run: "run_request es rq = rq" by (simp add: run_request_quiet)
    from that have s: "sent" by simp
    show ?thesis
      unfolding run using that
      by (simp add: r [OF s] request_step_def handler_def matches_def resolve_def unsubscribe_def
          clearRequestTimeout_def Let_def response_not_error)
  qed
  have C: "promise (request_step (Publication d response) (run_request es rq)) =
              Rejected (errorText response) \<and>
           (msg_message response = Some txt \<and> txt \<noteq> [] \<longrightarrow> errorText response = txt) \<and>
           \<not> subscribed (request_step (Publication d response) (run_request es rq))"
    if "sent \<and> list_all (quiet rq) es \<and> msg_requestId response = Some rid \<and>
        msg_type response = ''error''"
  proof -
    from that have run: "run_request es rq = rq" by (simp add: run_request_quiet)
    from that have s: "sent" by simp
    show ?thesis
      unfolding run using that
      by (simp add: r [OF s] request_step_def handler_def matches_def reject_def unsubscribe_def
          clearRequestTimeout_def Let_def errorText_def)
  qed
  have D: "promise (request_step (Clock t) (run_request es rq)) = Rejected ''Request timeout'' \<and>
           \<not> subscribed (request_step (Clock t) (run_request es rq))"
    if "sent \<and> list_all (quiet rq) es \<and> t \<ge> now + 10000"
  proof -
    from that have run: "run_request es rq = rq" by (simp add: run_request_quiet)
    from that have s: "sent" by simp
    show ?thesis
      unfolding run using that
      by (simp add: r [OF s] request_step_def timeoutFired_def reject_def unsubscribe_def
          clearRequestTimeout_def DEFAULT_TIMEOUT_def)
  qed
  have E: "\<not> subscribed (run_request any rq)" if p: "promise (run_request any rq) \<noteq> Pending"
  proof -
    have "settled_clean rq"
      by (cases sent)
         (simp_all add: rq sent sendDeviceRequest_sent sendDeviceRequest_unsent settled_clean_def)
    then have "settled_clean (run_request any rq)" by (rule settled_clean_run)
    with p show ?thesis by (simp add: settled_clean_def)
  qed
  show ?thesis
    using A B C D E by blast
qed

theorem sendDeviceRequest_outcomes_witness:
  "promise rqUnsent = Rejected ''Device not connected'' \<and> \<not> subscribed rqUnsent \<and>
   promise rqSent = Pending \<and> subscribed rqSent \<and>
   promise (request_step (Publication ''BRW-01ABCDEF'' okResponse) (run_request quietEvents rqSent))
     = Resolved okResponse \<and>
   promise (request_step (Publication ''BRW-01ABCDEF'' errResponse) (run_request quietEvents rqSent))
     = Rejected ''Log buffer disabled'' \<and>
   promise (request_step (Clock 13000) (run_request quietEvents rqSent)) = Rejected ''Request timeout'' \<and>
   \<not> subscribed (run_request (quietEvents @ [Clock 13000]) rqSent)"
proof -
  let ?d = "''BRW-01ABCDEF''"
  let ?rid = "''req_3000_k2x9ab''"
  have unsent: "\<not> fst (sendToDevice ?d (logRequest\<lparr>msg_requestId := Some ?rid\<rparr>) newDeviceRelay)"
    by (simp add: relay_eval)
  have sent: "fst (sendToDevice ?d (logRequest\<lparr>msg_requestId := Some ?rid\<rparr>) (deviceRelay deviceUp))"
    by (simp add: system_eval proxy_eval relay_eval)
  have rq: "rqSent = \<lparr>rq_deviceId = ?d, rq_requestId = ?rid, rq_requestType = ''get_log_info'',
      subscribed = True, timeoutAt = 13000, timeoutArmed = True, promise = Pending\<rparr>"
    unfolding rqSent_def sendDeviceRequest_sent [OF sent]
    by (simp add: DEFAULT_TIMEOUT_def logRequest_def msg_at_def msg_def)
  have q: "list_all (quiet rqSent) quietEvents"
    by (simp add: rq quietEvents_def quiet_def matches_def statusMsg_def okResponse_def msg_def)
  have ok: "msg_requestId okResponse = Some ?rid"
    "msg_type okResponse = msg_type logRequest @ ''_response''"
    by (simp_all add: okResponse_def logRequest_def msg_at_def msg_def)
  have err: "msg_requestId errResponse = Some ?rid" "msg_type errResponse = ''error''"
    "msg_message errResponse = Some ''Log buffer disabled''"
    by (simp_all add: errResponse_def msg_def)
  have late: "(13000::int) \<ge> 3000 + 10000" by simp
  have run: "run_request (quietEvents @ [Clock 13000]) rqSent =
      request_step (Clock 13000) (run_request quietEvents rqSent)"
    by (simp add: run_request_def)
  note u = sendDeviceRequest_outcomes
    [OF rqUnsent_def refl, of "[]" okResponse "[]" 13000 "[]"]
  note a = sendDeviceRequest_outcomes
    [OF rqSent_def refl, of quietEvents okResponse "[]" 13000 "quietEvents @ [Clock 13000]"]
  note b = sendDeviceRequest_outcomes
    [OF rqSent_def refl, of quietEvents errResponse "''Log buffer disabled''" 13000 "[]"]
  from u unsent have 1: "promise rqUnsent = Rejected ''Device not connected'' \<and> \<not> subscribed rqUnsent"
    by blast
  from a sent q ok late
  have 2: "promise (request_step (Publication ?d okResponse) (run_request quietEvents rqSent))
             = Resolved okResponse"
    and 3: "promise (request_step (Clock 13000) (run_request quietEvents rqSent)) = Rejected ''Request timeout''"
    by blast+
  from b sent q err
  have 4: "promise (request_step (Publication ?d errResponse) (run_request quietEvents rqSent))
             = Rejected ''Log buffer disabled''"
    by (simp add: errorText_def)
  from a 3 have 5: "\<not> subscribed (run_request (quietEvents @ [Clock 13000]) rqSent)"
    by (simp add: run)
  show ?thesis
    using 1 2 3 4 5 by (simp add: rq)
qed

section \<open>The offline notification of a forwarded client message\<close>

text \<open>
  The device connects at 1000, a client connects for it at 1500, an admin disconnects the
  device at 2000 (the socket is closing, its close event has not been processed), and the
  client sends a message at 2500.
\<close>

definition bothUp :: ClientProxy where
  "bothUp = step services1 1500 (ClientConnect 1 (Some ''token'') (Some ''BRW-01ABCDEF'') ''s1'') deviceUp"

definition closing :: ClientProxy where
  "closing = step services1 2000 (Device (AdminDisconnect ''BRW-01ABCDEF'')) bothUp"

definition notified :: ClientProxy where
  "notified = step services1 2500 (ClientFrame 1 (Some brewStart)) closing"

lemmas closing_eval = bothUp_def closing_def notified_def disconnectDevice_def

lemma clientSockets_frame [simp]:
  "clientSockets (modify_client a f P) = clientSockets P"
  "clientSockets (snd (relaySend d m P)) = clientSockets P"
  "clientSockets (queueMessageForDevice now d m sid P) = clientSockets P"
  by (simp_all add: modify_client_def relaySend_def queueMessageForDevice_def Let_def)

lemma relay_frame [simp]:
  "deviceRelay (modify_client a f P) = deviceRelay P"
  "deviceRelay (queueMessageForDevice now d m sid P) = deviceRelay P"
  by (simp_all add: modify_client_def queueMessageForDevice_def Let_def)

lemma relaySend_failed:
  "\<not> fst (sendToDevice d m (deviceRelay P)) \<Longrightarrow> relaySend d m P = (False, P)"
  by (auto simp add: relaySend_def sendToDevice_def Let_def split: option.splits)

lemma queueLength_sendToClient [simp]: "queueLength (sendToClient c m P) d = queueLength P d"
  by (simp add: queueLength_def sendToClient_def on_clientSocket_def)

lemma getDeviceLastSeen_on_close:
  "conns R w = Some c \<Longrightarrow> getDeviceLastSeen (on_close t w R) (deviceId c) = None"
  by (simp add: on_close_def Let_def on_socket_def updateDeviceStatus_def notifyHandlers_def
      getDeviceLastSeen_def devices_get_def delete_conv')

definition client1 :: ClientConnection where
  "client1 = setupTokenExpiryWarning 1500
     (newConnection 1500 1 ''s1''
        \<lparr>user_id = ''u1'', user_email = ''u1@example.org'', access_expires_at = 10000000\<rparr>
        ''BRW-01ABCDEF'')"

definition device1 :: DeviceConnection where
  "device1 = \<lparr>ws = 1, deviceId = ''BRW-01ABCDEF'', connectedAt = 1000, lastSeen = 1000,
      missedPings = 0\<rparr>"

lemma closing_facts:
  "clientConns closing 1 = Some client1"
  "c_ws client1 = 1"
  "c_deviceId client1 = ''BRW-01ABCDEF''"
  "msg_type brewStart \<notin> {''refresh_auth'', ''ping'', ''get_metrics''}"
  "\<not> fst (sendToDevice ''BRW-01ABCDEF'' (brewStart\<lparr>msg_timestamp := Some 2500\<rparr>) (deviceRelay closing))"
  "readyState (clientSockets closing 1) = OPEN"
  "conns (deviceRelay closing) 1 = Some device1"
  "getDeviceLastSeen (deviceRelay closing) ''BRW-01ABCDEF'' = Some 1000"
  "queueLength (handleClientMessage (verifyAccessToken services1) 2500 1 brewStart closing) ''BRW-01ABCDEF'' = 1"
  by (simp_all add: client1_def device1_def closing_eval system_eval proxy_eval relay_eval)

text \<open>
  C9 (as stated). Claim: whenever a client message cannot be forwarded because
  \<open>sendToDevice\<close> returned false, the \<open>lastSeen\<close> of the \<open>device_status\<close>
  notification is null. In the scenario above \<open>sendToDevice\<close> returns false because the
  registered socket is closing, the registry still holds the connection, and the
  notification carries its \<open>lastSeen\<close>, 1000.
\<close>

theorem offline_notification_with_lastSeen:
  "readyState (sockets (deviceRelay closing) 1) = CLOSING \<and>
   fst (sendToDevice ''BRW-01ABCDEF'' (brewStart\<lparr>msg_timestamp := Some 2500\<rparr>) (deviceRelay closing)) = False \<and>
   msg_type (last (clientOutbox notified 1)) = ''device_status'' \<and>
   map_of (payload (last (clientOutbox notified 1))) ''online'' = Some (JBool False) \<and>
   map_of (payload (last (clientOutbox notified 1))) ''lastSeen'' = Some (JNum 1000)"
  by (simp add: closing_eval system_eval proxy_eval relay_eval)

text \<open>
  C9 (amended). When a client message is not forwarded because \<open>sendToDevice\<close> returned
  false, the client (its socket open) is sent one \<open>device_status\<close> notification whose
  \<open>lastSeen\<close> is null if the registry holds no connection for the device, and the
  \<open>lastSeen\<close> of the registered connection otherwise (its socket is then not open);
  once the close event of a device's socket has been processed the registry holds no
  connection for that device id, so \<open>getDeviceLastSeen\<close> is null from then on.
\<close>

theorem offline_notification_lastSeen:
  assumes "clientConns P a = Some client"
    and "msg_type m \<notin> {''refresh_auth'', ''ping'', ''get_metrics''}"
    and "\<not> fst (sendToDevice (c_deviceId client) (m\<lparr>msg_timestamp := Some now\<rparr>) (deviceRelay P))"
    and "readyState (clientSockets P (c_ws client)) = OPEN"
  shows "let d = c_deviceId client;
             R = deviceRelay P;
             P' = handleClientMessage v now a m P;
             note = deviceStatusOffline d (getDeviceLastSeen R d) (queueLength P' d)
         in clientOutbox P' (c_ws client) = clientOutbox P (c_ws client) @ [note] \<and>
            map_of (payload note) ''lastSeen'' =
              Some (case devices_get R d of None \<Rightarrow> JNull | Some c \<Rightarrow> JNum (lastSeen c)) \<and>
            (conns R w = Some c \<longrightarrow> getDeviceLastSeen (on_close t w R) (deviceId c) = None)"
proof -
  let ?d = "c_deviceId client"
  let ?m1 = "m\<lparr>msg_timestamp := Some now\<rparr>"
  let ?P1 = "modify_client a
               (\<lambda>c. c\<lparr>metrics := (metrics c)\<lparr>messagesSent := Suc (messagesSent (metrics c))\<rparr>\<rparr>) P"
  let ?P2 = "queueMessageForDevice now ?d ?m1 (sessionId client) ?P1"
  let ?note = "deviceStatusOffline ?d (getDeviceLastSeen (deviceRelay P) ?d) (queueLength ?P2 ?d)"
  have fail: "relaySend ?d ?m1 ?P1 = (False, ?P1)"
    using assms(3) by (simp add: relaySend_failed)
  have eq: "handleClientMessage v now a m P = sendToClient client ?note ?P2"
    using assms(1,2) by (simp add: handleClientMessage_def Let_def fail)
  have out: "clientOutbox (sendToClient client ?note ?P2) (c_ws client) =
      clientOutbox P (c_ws client) @ [?note]"
    using assms(4) by (simp add: sendToClient_open clientOutbox_def)
  have ql: "queueLength (handleClientMessage v now a m P) ?d = queueLength ?P2 ?d"
    by (simp add: eq)
  have field: "map_of (payload (deviceStatusOffline ?d (getDeviceLastSeen (deviceRelay P) ?d) n)) ''lastSeen'' =
      Some (case devices_get (deviceRelay P) ?d of None \<Rightarrow> JNull | Some c \<Rightarrow> JNum (lastSeen c))" for n
    by (simp add: deviceStatusOffline_def msg_def isoOrNull_def getDeviceLastSeen_def
        split: option.splits)
  show ?thesis
    unfolding Let_def ql
    using out field getDeviceLastSeen_on_close [of "deviceRelay P" w c t]
    by (simp add: eq)
qed

theorem offline_notification_lastSeen_witness:
  "clientConns closing 1 = Some client1 \<and>
   \<not> fst (sendToDevice ''BRW-01ABCDEF'' (brewStart\<lparr>msg_timestamp := Some 2500\<rparr>) (deviceRelay closing)) \<and>
   clientOutbox (handleClientMessage (verifyAccessToken services1) 2500 1 brewStart closing) 1 =
     clientOutbox closing 1 @ [deviceStatusOffline ''BRW-01ABCDEF'' (Some 1000) 1] \<and>
   getDeviceLastSeen (on_close 3000 1 (deviceRelay closing)) ''BRW-01ABCDEF'' = None"
proof -
  have d: "deviceId device1 = ''BRW-01ABCDEF''"
    by (simp add: device1_def)
  from offline_notification_lastSeen
    [of closing 1 client1 brewStart 2500 "verifyAccessToken services1" 1 device1 3000]
    closing_facts d
  show ?thesis
    by (simp add: Let_def)
qed

section \<open>Device Relay: registry keys and publications of a session\<close>

text \<open>
  The registry is a \<open>Map\<close>, so its size is the number of its keys: the association
  list that models it keeps its keys distinct under every event, and its length is
  that number. A socket that has not been accepted publishes nothing, and the accept
  publishes \<open>device_online\<close> as its last step: the \<open>device_online\<close> of a session
  precedes every device message of that session.
\<close>

lemma relay_frame_published [simp]:
  "published (on_socket w f R) = published R"
  "published (updateDeviceStatus d b R) = published R"
  "published (snd (sendToDevice d m R)) = published R"
  by (simp_all add: on_socket_def updateDeviceStatus_def sendToDevice_def split: option.splits)

lemma relay_frame_devices [simp]:
  "devices (on_socket w f R) = devices R"
  "devices (updateDeviceStatus d b R) = devices R"
  "devices (notifyHandlers d m R) = devices R"
  "devices (snd (sendToDevice d m R)) = devices R"
  "devices (handleDeviceMessage now d m R) = devices R"
  by (simp_all add: on_socket_def updateDeviceStatus_def notifyHandlers_def sendToDevice_def
      handleDeviceMessage_def split: option.splits)

lemma devices_handleEach [simp]: "devices (handleEach now d ms R) = devices R"
  by (induction ms arbitrary: R) simp_all

lemma devices_pingDevice [simp]: "devices (pingDevice a R) = devices R"
  by (simp add: pingDevice_def Let_def split: option.splits)

lemma devices_fold_pingDevice [simp]: "devices (fold pingDevice as R) = devices R"
  by (induction as arbitrary: R) simp_all

lemma frame_before_accept: "conns R w = None \<Longrightarrow> on_message now w data R = R"
  by (simp add: on_message_def)

lemma accept_publishes_device_online:
  assumes "d \<noteq> []" "key \<noteq> []" "validDeviceId d" "32 \<le> length key" "length key \<le> 64"
    "verify d key"
  shows "published (DeviceRelay_handleConnection verify now w (Some d) (Some key) R) =
           published R @ [(d, msg ''device_online'' [])]"
  using assms
  by (simp add: DeviceRelay_handleConnection_def Let_def notifyHandlers_def split: option.splits)

lemma distinct_devices_step:
  assumes "distinct (map fst (devices R))"
  shows "distinct (map fst (devices (relay_step verify now e R)))"
proof (cases e)
  case (DeviceConnect w idp keyp)
  show ?thesis
    using assms
    by (simp add: DeviceConnect relay_step_def DeviceRelay_handleConnection_def Let_def
        distinct_update split: option.splits)
next
  case (DevicePong w)
  show ?thesis
    using assms by (simp add: DevicePong relay_step_def on_pong_def split: option.splits)
next
  case (DeviceFrame w data)
  show ?thesis
    using assms
    by (simp add: DeviceFrame relay_step_def on_message_def Let_def singleDecode_def
        split: option.splits RawData.splits)
next
  case (DeviceClosed w)
  show ?thesis
    using assms
    by (simp add: DeviceClosed relay_step_def on_close_def Let_def distinct_delete
        split: option.splits)
next
  case DevicePingSweep
  show ?thesis
    using assms by (simp add: DevicePingSweep relay_step_def pingAllDevices_def)
next
  case (AdminDisconnect d)
  show ?thesis
    using assms
    by (simp add: AdminDisconnect relay_step_def disconnectDevice_def split: option.splits)
qed

text \<open>
  The replacement in general: whatever the state, when a socket \<open>w1\<close> holds a connection
  for device \<open>d\<close> and \<open>d\<close> is accepted again on another socket \<open>w2\<close>, the registry
  maps \<open>d\<close> to \<open>w2\<close>, and processing the close event of \<open>w1\<close> afterwards leaves no
  entry for \<open>d\<close>.
\<close>

lemma conns_frame [simp]:
  "conns (on_socket w f R) = conns R"
  "conns (updateDeviceStatus d b R) = conns R"
  "conns (snd (sendToDevice d m R)) = conns R"
  by (simp_all add: on_socket_def updateDeviceStatus_def sendToDevice_def split: option.splits)

lemma accept_registers:
  assumes "d \<noteq> []" "key \<noteq> []" "validDeviceId d" "32 \<le> length key" "length key \<le> 64"
    "verify d key"
  shows "devices (DeviceRelay_handleConnection verify now w (Some d) (Some key) R) =
           AList.update d w (devices R)"
    and "conns (DeviceRelay_handleConnection verify now w (Some d) (Some key) R) =
           (conns R)(w \<mapsto> \<lparr>ws = w, deviceId = d, connectedAt = now, lastSeen = now,
                               missedPings = 0\<rparr>)"
proof -
  let ?R1 = "case devices_get R d of
               None \<Rightarrow> R
             | Some existing \<Rightarrow>
                 on_socket (ws existing) (ws_close 4002 ''Replaced by new connection'') R"
  have R1: "devices ?R1 = devices R" "conns ?R1 = conns R"
    by (simp_all split: option.splits)
  show "devices (DeviceRelay_handleConnection verify now w (Some d) (Some key) R) =
           AList.update d w (devices R)"
    and "conns (DeviceRelay_handleConnection verify now w (Some d) (Some key) R) =
           (conns R)(w \<mapsto> \<lparr>ws = w, deviceId = d, connectedAt = now, lastSeen = now,
                               missedPings = 0\<rparr>)"
    using assms by (simp_all add: DeviceRelay_handleConnection_def Let_def R1)
qed

lemma close_of_replaced_socket_unregisters_device:
  assumes "conns R w1 = Some old" "deviceId old = d" "w2 \<noteq> w1"
    and "d \<noteq> []" "key \<noteq> []" "validDeviceId d" "32 \<le> length key" "length key \<le> 64"
    "verify d key"
  shows "map_of (devices (DeviceRelay_handleConnection verify now w2 (Some d) (Some key) R)) d = Some w2"
    and "map_of (devices (on_close t w1
            (DeviceRelay_handleConnection verify now w2 (Some d) (Some key) R))) d = None"
proof -
  note acc = accept_registers [of d key verify now w2 R]
  show "map_of (devices (DeviceRelay_handleConnection verify now w2 (Some d) (Some key) R)) d = Some w2"
    using assms by (simp add: acc update_conv')
  show "map_of (devices (on_close t w1
            (DeviceRelay_handleConnection verify now w2 (Some d) (Some key) R))) d = None"
    using assms by (simp add: acc on_close_def Let_def delete_conv')
qed

end
